theory Spec2Isabelle
  imports Complex_Main "HOL-Library.Word"
begin

section \<open>Strings and character classes\<close>

text \<open>
  A JavaScript string is a sequence of UTF-16 code units. None of the regular expressions of
  \<^verbatim>\<open>languageFilter.ts\<close> and \<^verbatim>\<open>hybridLanguageDetector.ts\<close> carries the
  \<^verbatim>\<open>u\<close> flag, so every character class is a test on a single code unit.
  JavaScript numbers are modelled as reals: the confidences are only compared with the decimal
  constants of the source and combined by \<^verbatim>\<open>+\<close>, \<^verbatim>\<open>*\<close>, \<^verbatim>\<open>/\<close> and
  \<^verbatim>\<open>Math.min\<close>; rounding of IEEE doubles is not modelled.
\<close>

type_synonym code_unit = "16 word"
type_synonym jsstring = "code_unit list"

text \<open>\<^verbatim>\<open>LANGUAGE_PATTERNS.chinese\<close>: the code units \<^verbatim>\<open>4E00..9FA5\<close>.\<close>

definition is_chinese :: "code_unit \<Rightarrow> bool" where
  "is_chinese c \<longleftrightarrow> 0x4E00 \<le> c \<and> c \<le> 0x9FA5"

text \<open>\<^verbatim>\<open>LANGUAGE_PATTERNS.japanese\<close>: Hiragana \<^verbatim>\<open>3040..309F\<close> and Katakana
  \<^verbatim>\<open>30A0..30FF\<close>.\<close>

definition is_japanese :: "code_unit \<Rightarrow> bool" where
  "is_japanese c \<longleftrightarrow> (0x3040 \<le> c \<and> c \<le> 0x309F) \<or> (0x30A0 \<le> c \<and> c \<le> 0x30FF)"

text \<open>\<^verbatim>\<open>LANGUAGE_PATTERNS.german\<close>: a-umlaut, o-umlaut, u-umlaut, sharp s, and the three
  capital umlauts.\<close>

definition is_german :: "code_unit \<Rightarrow> bool" where
  "is_german c \<longleftrightarrow> c \<in> set [0xE4, 0xF6, 0xFC, 0xDF, 0xC4, 0xD6, 0xDC]"

text \<open>\<^verbatim>\<open>LANGUAGE_PATTERNS.french\<close>, in the order of the source's class (lower case, then
  upper case; \<^verbatim>\<open>0x153\<close>, \<^verbatim>\<open>0x152\<close> are the oe ligatures, \<^verbatim>\<open>0x178\<close> is
  capital y-diaeresis).\<close>

definition is_french :: "code_unit \<Rightarrow> bool" where
  "is_french c \<longleftrightarrow> c \<in> set
     [0xE0, 0xE2, 0xE9, 0xE8, 0xEA, 0xEB, 0xEE, 0xEF, 0xF4, 0xF9, 0xFB, 0xFC, 0xFF, 0xE7, 0x153, 0xE6,
      0xC0, 0xC2, 0xC9, 0xC8, 0xCA, 0xCB, 0xCE, 0xCF, 0xD4, 0xD9, 0xDB, 0xDC, 0x178, 0xC7, 0x152, 0xC6]"

text \<open>\<^verbatim>\<open>LANGUAGE_PATTERNS.spanish\<close>: n-tilde, inverted question mark, inverted exclamation
  mark, capital n-tilde.\<close>

definition is_spanish :: "code_unit \<Rightarrow> bool" where
  "is_spanish c \<longleftrightarrow> c \<in> set [0xF1, 0xBF, 0xA1, 0xD1]"

text \<open>The two tests of rule 3 of \<^verbatim>\<open>quickLanguageDetection\<close>: the n-tilde class and the
  class of the inverted marks.\<close>

definition is_enye :: "code_unit \<Rightarrow> bool" where
  "is_enye c \<longleftrightarrow> c \<in> set [0xF1, 0xD1]"

definition is_inverted_mark :: "code_unit \<Rightarrow> bool" where
  "is_inverted_mark c \<longleftrightarrow> c \<in> set [0xBF, 0xA1]"

text \<open>\<^verbatim>\<open>LANGUAGE_PATTERNS.spanishAccented\<close>\<close>

definition is_spanishAccented :: "code_unit \<Rightarrow> bool" where
  "is_spanishAccented c \<longleftrightarrow> c \<in> set
     [0xE1, 0xE9, 0xED, 0xF3, 0xFA, 0xFC, 0xC1, 0xC9, 0xCD, 0xD3, 0xDA, 0xDC]"

text \<open>\<^verbatim>\<open>LANGUAGE_PATTERNS.allAccented\<close>: the lower-case block \<^verbatim>\<open>E0..FF\<close> without the
  division sign \<^verbatim>\<open>F7\<close>, the upper-case block \<^verbatim>\<open>C0..DE\<close> without the multiplication
  sign \<^verbatim>\<open>D7\<close>, and \<^verbatim>\<open>0x178\<close>.\<close>

definition is_allAccented :: "code_unit \<Rightarrow> bool" where
  "is_allAccented c \<longleftrightarrow>
     (0xE0 \<le> c \<and> c \<le> 0xFF \<and> c \<noteq> 0xF7) \<or> (0xC0 \<le> c \<and> c \<le> 0xDE \<and> c \<noteq> 0xD7) \<or> c = 0x178"

text \<open>The class \<^verbatim>\<open>\s\<close> of a regular expression, which is also what
  \<^verbatim>\<open>String.prototype.trim\<close> strips: the ECMAScript white space and line terminators.\<close>

definition is_space :: "code_unit \<Rightarrow> bool" where
  "is_space c \<longleftrightarrow>
     c \<in> set [0x09, 0x0A, 0x0B, 0x0C, 0x0D, 0x20, 0xA0, 0x1680, 0x2028, 0x2029, 0x202F, 0x205F,
              0x3000, 0xFEFF]
     \<or> (0x2000 \<le> c \<and> c \<le> 0x200A)"

text \<open>The class of rule 7, \<^verbatim>\<open>[a-zA-Z0-9\s.,!?;:'"()-]\<close>.\<close>

definition is_basic :: "code_unit \<Rightarrow> bool" where
  "is_basic c \<longleftrightarrow>
     (0x61 \<le> c \<and> c \<le> 0x7A) \<or> (0x41 \<le> c \<and> c \<le> 0x5A) \<or> (0x30 \<le> c \<and> c \<le> 0x39) \<or> is_space c
     \<or> c \<in> set [0x2E, 0x2C, 0x21, 0x3F, 0x3B, 0x3A, 0x27, 0x22, 0x28, 0x29, 0x2D]"

text \<open>\<^verbatim>\<open>text.match(re)\<close> with a global one-character class: the number of matches
  (\<^verbatim>\<open>null\<close>, that is no match, leaves the counter at 0).\<close>

definition count_matches :: "(code_unit \<Rightarrow> bool) \<Rightarrow> jsstring \<Rightarrow> nat" where
  "count_matches p t = length (filter p t)"

text \<open>\<^verbatim>\<open>re.test(text)\<close> for a one-character class.\<close>

definition test_class :: "(code_unit \<Rightarrow> bool) \<Rightarrow> jsstring \<Rightarrow> bool" where
  "test_class p t \<longleftrightarrow> list_ex p t"

definition trim :: "jsstring \<Rightarrow> jsstring" where
  "trim t = rev (dropWhile is_space (rev (dropWhile is_space t)))"

section \<open>The pre-filter (languageFilter.ts)\<close>

record CharStats =
  chinese :: nat
  japanese :: nat
  german :: nat
  french :: nat
  spanish :: nat
  accented :: nat
  total :: nat

definition scanCharacters :: "jsstring \<Rightarrow> CharStats" where
  "scanCharacters t =
     \<lparr> chinese = count_matches is_chinese t,
       japanese = count_matches is_japanese t,
       german = count_matches is_german t,
       french = count_matches is_french t,
       spanish = count_matches is_spanish t,
       accented = count_matches is_allAccented t,
       total = length t \<rparr>"

text \<open>\<^verbatim>\<open>LanguageFilterResult\<close>: a language code, or \<^verbatim>\<open>null\<close> (\<open>None\<close>).\<close>

definition quickLanguageDetection :: "CharStats \<Rightarrow> jsstring \<Rightarrow> string option" where
  "quickLanguageDetection stats t =
     (if chinese stats > 0 then Some ''zh''
      else if japanese stats > 0 then Some ''ja''
      else if spanish stats > 0 \<and> test_class is_enye t then Some ''es''
      else if spanish stats > 0 \<and> test_class is_inverted_mark t then Some ''es''
      else if german stats > 0 \<and> french stats = 0 \<and> spanish stats = 0
              \<and> (german stats \<ge> 2
                  \<or> (total stats > 0 \<and> real (german stats) / real (total stats) > 0.05))
        then Some ''de''
      else if french stats > 0 \<and> german stats = 0 \<and> spanish stats = 0
              \<and> (french stats \<ge> 2
                  \<or> (total stats > 0 \<and> real (french stats) / real (total stats) > 0.05))
        then Some ''fr''
      else if spanish stats = 0 \<and> accented stats > 0
              \<and> count_matches is_spanishAccented t \<ge> 2
              \<and> real (count_matches is_spanishAccented t) / real (accented stats) > 0.7
        then Some ''es''
      else if german stats = 0 \<and> french stats = 0 \<and> spanish stats = 0 \<and> accented stats = 0
              \<and> t \<noteq> [] \<and> list_all is_basic t
        then Some ''en''
      else None)"

definition languageFilter :: "jsstring \<Rightarrow> string option" where
  "languageFilter t =
     (if t = [] \<or> length (trim t) = 0 then None
      else if length (trim t) < 2 then Some ''en''
      else quickLanguageDetection (scanCharacters t) t)"

definition getCharStats :: "jsstring \<Rightarrow> CharStats" where
  "getCharStats t = scanCharacters t"

section \<open>The heuristic stage (hybridLanguageDetector.ts)\<close>

datatype detection_method = FastText | CharScan | LLM | Fallback

text \<open>\<^verbatim>\<open>DetectionResult\<close>. The optional \<^verbatim>\<open>reasoning\<close> text is a message for the
  reader of the log; no decision reads it, and it is left out.\<close>

record DetectionResult =
  language :: string
  confidence :: real
  detection_method :: detection_method

text \<open>The confidence that rule 3 of \<^verbatim>\<open>detectWithCharScan\<close> gives to the pre-filter's
  answer.\<close>

definition filterConfidence :: "string \<Rightarrow> CharStats \<Rightarrow> real" where
  "filterConfidence filterResult stats =
     (if filterResult = ''de'' \<and> german stats > 0
        then min 0.95 (0.75 + (real (german stats) / real (total stats)) * 0.2)
      else if filterResult = ''fr'' \<and> french stats > 0
        then min 0.95 (0.75 + (real (french stats) / real (total stats)) * 0.2)
      else if filterResult = ''es'' \<and> spanish stats > 0
        then min 0.95 (0.75 + (real (spanish stats) / real (total stats)) * 0.2)
      else if filterResult = ''en''
        then (if german stats = 0 \<and> french stats = 0 \<and> spanish stats = 0 \<and> accented stats = 0
              then 0.8 else 0.75)
      else 0.75)"

definition detectWithCharScan :: "jsstring \<Rightarrow> DetectionResult option" where
  "detectWithCharScan t =
     (let stats = getCharStats t in
      if japanese stats > 0
         \<and> (real (japanese stats) / real (total stats) > 0.05 \<or> japanese stats \<ge> 1)
        then Some \<lparr> language = ''ja'',
                    confidence = min 0.98 (0.8 + (real (japanese stats) / real (total stats)) * 0.18),
                    detection_method = CharScan \<rparr>
      else if chinese stats > 0 \<and> japanese stats = 0
              \<and> (real (chinese stats) / real (total stats) > 0.05 \<or> chinese stats \<ge> 1)
        then Some \<lparr> language = ''zh'',
                    confidence = min 0.98 (0.8 + (real (chinese stats) / real (total stats)) * 0.18),
                    detection_method = CharScan \<rparr>
      else (case languageFilter t of
              None \<Rightarrow> None
            | Some filterResult \<Rightarrow>
                (let c = filterConfidence filterResult stats in
                 if c > 0.75
                   then Some \<lparr> language = filterResult, confidence = c, detection_method = CharScan \<rparr>
                   else None)))"

text \<open>\<^verbatim>\<open>s.split(/\s+/)\<close>: the pieces between the maximal runs of white space. The first
  argument collects the current piece, last code unit first.\<close>

function split_spaces :: "jsstring \<Rightarrow> jsstring \<Rightarrow> jsstring list" where
  "split_spaces cur [] = [rev cur]"
| "split_spaces cur (c # cs) =
     (if is_space c then rev cur # split_spaces [] (dropWhile is_space cs)
      else split_spaces (c # cur) cs)"
  by pat_completeness auto
termination
  by (relation "measure (\<lambda>(cur, t). length t)")
     (auto simp: le_imp_less_Suc length_dropWhile_le)

text \<open>\<^verbatim>\<open>text.trim().split(/\s+/).filter(w => w.length > 0).length\<close>\<close>

definition wordCount :: "jsstring \<Rightarrow> nat" where
  "wordCount t = length (filter (\<lambda>w. length w > 0) (split_spaces [] (trim t)))"

definition calculateLocalConfidence :: "jsstring \<Rightarrow> DetectionResult option \<Rightarrow> real" where
  "calculateLocalConfidence t charScanResult =
     (let stats = getCharStats t in
      if (case charScanResult of None \<Rightarrow> False | Some r \<Rightarrow> confidence r > 0.8) then 0.85
      else if japanese stats > 0 \<or> chinese stats > 0 then 0.85
      else if german stats > 0 \<or> french stats > 0 \<or> spanish stats > 0
        then (let specialCharCount = german stats + french stats + spanish stats;
                  specialCharRatio = real specialCharCount / real (total stats)
              in if specialCharRatio > 0.1 \<or> specialCharCount \<ge> 2 then 0.8 else 0.6)
      else if wordCount t \<ge> 5 then 0.65
      else if wordCount t \<ge> 3 then 0.55
      else if wordCount t \<le> 2 then 0.3
      else 0.5)"

section \<open>The providers and the module state\<close>

text \<open>
  The two collaborators are outside the program: the package \<^verbatim>\<open>fasttext.wasm.js\<close>, reached
  by a dynamic import, and the chat-completion endpoint behind \<^verbatim>\<open>fetch\<close>. What they do
  during one call of \<^verbatim>\<open>hybridLanguageDetect\<close> is an input of the model; each of them is
  consulted at most once per call. A rejected promise and a thrown exception are the same
  thing to \<^verbatim>\<open>await\<close> inside \<^verbatim>\<open>try\<close>: an error value.
\<close>

datatype js_error = Rejected | TypeError

text \<open>The dynamic import of \<^verbatim>\<open>checkFastTextAvailability\<close>: it rejects, or it resolves to a
  falsy value, or it resolves to the module.\<close>

datatype import_outcome = ImportRejects | ImportFalsy | ImportModule

text \<open>The field \<^verbatim>\<open>alpha2\<close> of the value of \<^verbatim>\<open>model.identify(text)\<close>: absent
  (\<^verbatim>\<open>undefined\<close> or \<^verbatim>\<open>null\<close>), a string, or a value without a method
  \<^verbatim>\<open>toLowerCase\<close>, on which the call \<^verbatim>\<open>result.alpha2?.toLowerCase()\<close> throws.\<close>

datatype tag_value = TagAbsent | TagString string | TagNotString

text \<open>\<^verbatim>\<open>model.identify(text)\<close>: it throws (or resolves to \<^verbatim>\<open>undefined\<close>, on which the
  read of \<^verbatim>\<open>result.score\<close> throws), or it resolves to an object. The field
  \<^verbatim>\<open>score\<close> is a number, or \<open>None\<close> when it is absent or \<^verbatim>\<open>NaN\<close>.\<close>

datatype identify_outcome = IdentifyThrows | Identified "real option" tag_value

text \<open>The request of \<^verbatim>\<open>detectTextLanguageWithAI\<close> (qwenApi.ts). \<open>RequestFails\<close>: anything
  in the \<^verbatim>\<open>try\<close> block throws (\<^verbatim>\<open>fetch\<close> rejects, the status is not ok, the body is not
  JSON, the content is not a string). Otherwise the reply has a content, of which the function
  reads two things: the lower-cased field \<^verbatim>\<open>language\<close> of the JSON object found in it
  (\<open>None\<close> when there is no such object, when \<^verbatim>\<open>JSON.parse\<close> throws, which the inner
  \<^verbatim>\<open>catch\<close> absorbs, or when the field is not a string), and the lower-cased two-letter
  code that follows the word \<^verbatim>\<open>language:\<close> (\<open>None\<close> when the second regular expression
  does not match).\<close>

datatype remote_reply = RequestFails | Content "string option" "string option"

text \<open>What the word lists of the rule-based \<^verbatim>\<open>detectTextLanguage(text)\<close> of qwenApi.ts
  decide. That function is pure; after its two script tests it counts special characters and
  matches lists of words, and each of its \<^verbatim>\<open>return\<close> statements returns one of five
  literals. The comparison of the word lists is not modelled: its outcome for the text of the
  call is part of the input. It is read only when the remote stage runs and its request
  fails.\<close>

datatype rule_language = RuleEn | RuleDe | RuleFr | RuleJa | RuleEs

fun rule_code :: "rule_language \<Rightarrow> string" where
  "rule_code RuleEn = ''en''"
| "rule_code RuleDe = ''de''"
| "rule_code RuleFr = ''fr''"
| "rule_code RuleJa = ''ja''"
| "rule_code RuleEs = ''es''"

record Providers =
  import_probe :: import_outcome
  model_load :: bool
  identify :: identify_outcome
  remote :: remote_reply
  word_rules :: rule_language

text \<open>
  The module-level variables of hybridLanguageDetector.ts. \<open>fastTextModel\<close> tells whether a
  model instance is cached; \<open>fastTextLoadPromise\<close> is \<^verbatim>\<open>null\<close> (\<open>None\<close>) or a promise,
  with the flag telling whether it settles to a model instance. The four counters are not in
  the source: they count the calls made to the collaborators, as a test double would.
\<close>

record ModuleState =
  fastTextModel :: bool
  fastTextLoading :: bool
  fastTextLoadPromise :: "bool option"
  fastTextAvailable :: "bool option"
  import_probes :: nat
  load_attempts :: nat
  identify_calls :: nat
  llm_calls :: nat

definition initialState :: ModuleState where
  "initialState =
     \<lparr> fastTextModel = False, fastTextLoading = False, fastTextLoadPromise = None,
       fastTextAvailable = None,
       import_probes = 0, load_attempts = 0, identify_calls = 0, llm_calls = 0 \<rparr>"

section \<open>The statistical stage\<close>

text \<open>Every asynchronous function takes the module state and returns its value, or the error
  it rejects with, together with the new state.\<close>

definition checkFastTextAvailability ::
  "Providers \<Rightarrow> ModuleState \<Rightarrow> (js_error + bool) \<times> ModuleState" where
  "checkFastTextAvailability env s =
     (case fastTextAvailable s of
        Some known \<Rightarrow> (Inr known, s)
      | None \<Rightarrow>
          (let s1 = s\<lparr> import_probes := import_probes s + 1 \<rparr> in
           case import_probe env of
             ImportModule \<Rightarrow> (Inr True, s1\<lparr> fastTextAvailable := Some True \<rparr>)
           | ImportRejects \<Rightarrow> (Inr False, s1\<lparr> fastTextAvailable := Some False \<rparr>)
           | ImportFalsy \<Rightarrow> (Inr False, s1\<lparr> fastTextAvailable := Some False \<rparr>)))"

text \<open>The value is \<open>True\<close> for a model instance and \<open>False\<close> for \<^verbatim>\<open>null\<close>.
  \<open>model_load\<close> tells whether the second import, \<^verbatim>\<open>getLIDModel()\<close> and
  \<^verbatim>\<open>lidModel.load()\<close> all succeed; they share one \<^verbatim>\<open>try\<close> block.\<close>

definition initFastText ::
  "Providers \<Rightarrow> ModuleState \<Rightarrow> (js_error + bool) \<times> ModuleState" where
  "initFastText env s =
     (case checkFastTextAvailability env s of
        (Inl e, s1) \<Rightarrow> (Inl e, s1)
      | (Inr available, s1) \<Rightarrow>
          if \<not> available then (Inr False, s1)
          else if fastTextModel s1 then (Inr True, s1)
          else
            (case (if fastTextLoading s1 then fastTextLoadPromise s1 else None) of
               Some settles \<Rightarrow> (Inr settles, s1)
             | None \<Rightarrow>
                 (let s2 = s1\<lparr> fastTextLoading := True, load_attempts := load_attempts s1 + 1 \<rparr> in
                  if model_load env
                    then (Inr True,
                          s2\<lparr> fastTextModel := True, fastTextLoading := False,
                              fastTextLoadPromise := Some True \<rparr>)
                    else (Inr False,
                          s2\<lparr> fastTextLoading := False, fastTextLoadPromise := None,
                              fastTextAvailable := Some False \<rparr>))))"

text \<open>\<^verbatim>\<open>String.prototype.toLowerCase\<close> on the language tags, which are byte strings here:
  the letters A to Z are mapped, every other character is kept.\<close>

definition lowerChar :: "char \<Rightarrow> char" where
  "lowerChar c =
     (case map_of (zip ''ABCDEFGHIJKLMNOPQRSTUVWXYZ'' ''abcdefghijklmnopqrstuvwxyz'') c of
        Some l \<Rightarrow> l
      | None \<Rightarrow> c)"

definition toLowerCase :: "string \<Rightarrow> string" where
  "toLowerCase w = map lowerChar w"

text \<open>The value of a property read \<^verbatim>\<open>LANGUAGE_CODE_MAP[key]\<close>. The map is an object
  literal, so besides its eight own keys a read finds the properties inherited from
  \<^verbatim>\<open>Object.prototype\<close>; two of those have an all-lower-case name. Such a value is truthy
  and is not a string.\<close>

datatype property_value = Undefined | StringValue string | InheritedValue

definition LANGUAGE_CODE_MAP :: "string \<Rightarrow> property_value" where
  "LANGUAGE_CODE_MAP key =
     (if key = ''en'' then StringValue ''en''
      else if key = ''de'' then StringValue ''de''
      else if key = ''fr'' then StringValue ''fr''
      else if key = ''ja'' then StringValue ''ja''
      else if key = ''es'' then StringValue ''es''
      else if key = ''zh'' then StringValue ''zh''
      else if key = ''zh-cn'' then StringValue ''zh''
      else if key = ''zh-tw'' then StringValue ''zh''
      else if key = ''constructor'' \<or> key = ''__proto__'' then InheritedValue
      else Undefined)"

text \<open>\<^verbatim>\<open>result.alpha2?.toLowerCase() || ''\<close>: the key that is looked up, or the
  \<^verbatim>\<open>TypeError\<close> of calling a method that is not there.\<close>

definition tagKey :: "tag_value \<Rightarrow> js_error + string" where
  "tagKey alpha2 =
     (case alpha2 of
        TagAbsent \<Rightarrow> Inr []
      | TagString tag \<Rightarrow> Inr (toLowerCase tag)
      | TagNotString \<Rightarrow> Inl TypeError)"

text \<open>The list of the test \<^verbatim>\<open>['en', 'de', 'fr', 'ja', 'es', 'zh'].includes(langCode)\<close>.\<close>

definition SUPPORTED_LANGUAGES :: "string list" where
  "SUPPORTED_LANGUAGES = [''en'', ''de'', ''fr'', ''ja'', ''es'', ''zh'']"

definition detectWithFastText ::
  "Providers \<Rightarrow> ModuleState \<Rightarrow> jsstring \<Rightarrow> (js_error + DetectionResult option) \<times> ModuleState" where
  "detectWithFastText env s t =
     (case checkFastTextAvailability env s of
        (Inl e, s1) \<Rightarrow> (Inl e, s1)
      | (Inr available, s1) \<Rightarrow>
          if \<not> available then (Inr None, s1)
          else
            (case initFastText env s1 of
               (Inl e, s2) \<Rightarrow> (Inr None, s2\<lparr> fastTextAvailable := Some False \<rparr>)
             | (Inr model, s2) \<Rightarrow>
                 if \<not> model then (Inr None, s2)
                 else
                   (let s3 = s2\<lparr> identify_calls := identify_calls s2 + 1 \<rparr> in
                    case identify env of
                      IdentifyThrows \<Rightarrow> (Inr None, s3\<lparr> fastTextAvailable := Some False \<rparr>)
                    | Identified score alpha2 \<Rightarrow>
                        (let c = (case score of None \<Rightarrow> 0 | Some x \<Rightarrow> x) in
                         if c > 0.85
                           then
                             (case tagKey alpha2 of
                                Inl e \<Rightarrow> (Inr None, s3\<lparr> fastTextAvailable := Some False \<rparr>)
                              | Inr key \<Rightarrow>
                                  (case LANGUAGE_CODE_MAP key of
                                     StringValue langCode \<Rightarrow>
                                       if langCode \<in> set SUPPORTED_LANGUAGES
                                         then (Inr (Some \<lparr> language = langCode, confidence = c,
                                                             detection_method = FastText \<rparr>), s3)
                                         else (Inr None, s3)
                                   | _ \<Rightarrow> (Inr None, s3)))
                           else (Inr None, s3)))))"

section \<open>The remote stage\<close>

definition AI_LANGUAGES :: "string list" where
  "AI_LANGUAGES = [''en'', ''de'', ''fr'', ''ja'', ''es'']"

text \<open>\<^verbatim>\<open>detectTextLanguage\<close> of qwenApi.ts: Kana first, then ideographs, which it
  answers with English; for every other text the outcome of its word lists.\<close>

definition detectTextLanguage :: "rule_language \<Rightarrow> jsstring \<Rightarrow> string" where
  "detectTextLanguage by_words t =
     (if test_class is_japanese t then ''ja''
      else if test_class is_chinese t then ''en''
      else rule_code by_words)"

text \<open>\<^verbatim>\<open>detectTextLanguageWithAI\<close> of qwenApi.ts: the JSON object first, then the inline
  code, then English; the rule-based detection when the request fails.\<close>

definition detectTextLanguageWithAI :: "Providers \<Rightarrow> jsstring \<Rightarrow> js_error + string" where
  "detectTextLanguageWithAI env t =
     (case remote env of
        RequestFails \<Rightarrow> Inr (detectTextLanguage (word_rules env) t)
      | Content json_language inline_language \<Rightarrow>
          (case (case json_language of
                   Some lang \<Rightarrow> if lang \<in> set AI_LANGUAGES then Some lang else None
                 | None \<Rightarrow> None) of
             Some lang \<Rightarrow> Inr lang
           | None \<Rightarrow>
               (case inline_language of
                  Some lang \<Rightarrow> if lang \<in> set AI_LANGUAGES then Inr lang else Inr ''en''
                | None \<Rightarrow> Inr ''en'')))"

definition detectWithLLM ::
  "Providers \<Rightarrow> ModuleState \<Rightarrow> jsstring \<Rightarrow> (js_error + DetectionResult) \<times> ModuleState" where
  "detectWithLLM env s t =
     (let s1 = s\<lparr> llm_calls := llm_calls s + 1 \<rparr> in
      case detectTextLanguageWithAI env t of
        Inr lang \<Rightarrow> (Inr \<lparr> language = lang, confidence = 0.85, detection_method = LLM \<rparr>, s1)
      | Inl e \<Rightarrow> (Inr \<lparr> language = ''en'', confidence = 0.5, detection_method = Fallback \<rparr>, s1))"

section \<open>The arbitration engine\<close>

text \<open>The guard \<^verbatim>\<open>if (r && r.confidence > threshold) return r\<close>: the result that is
  returned, if any.\<close>

definition returnedAbove :: "real \<Rightarrow> DetectionResult option \<Rightarrow> DetectionResult option" where
  "returnedAbove threshold r =
     (case r of None \<Rightarrow> None | Some d \<Rightarrow> if confidence d > threshold then Some d else None)"

text \<open>The default result, which the source writes out three times with three different
  reasoning texts.\<close>

definition defaultResult :: DetectionResult where
  "defaultResult = \<lparr> language = ''en'', confidence = 0.5, detection_method = Fallback \<rparr>"

definition hybridLanguageDetect ::
  "Providers \<Rightarrow> ModuleState \<Rightarrow> jsstring \<Rightarrow> (js_error + DetectionResult) \<times> ModuleState" where
  "hybridLanguageDetect env s t =
     (if t = [] \<or> length (trim t) = 0 then (Inr defaultResult, s)
      else
        (case detectWithFastText env s t of
           (Inl e, s1) \<Rightarrow> (Inl e, s1)
         | (Inr fastTextResult, s1) \<Rightarrow>
             (case returnedAbove 0.85 fastTextResult of
                Some r \<Rightarrow> (Inr r, s1)
              | None \<Rightarrow>
                  (let charScanResult = detectWithCharScan t in
                   case returnedAbove 0.75 charScanResult of
                     Some r \<Rightarrow> (Inr r, s1)
                   | None \<Rightarrow>
                       (let localConfidence = calculateLocalConfidence t charScanResult in
                        if localConfidence < 0.7 then detectWithLLM env s1 t
                        else
                          (case charScanResult of
                             Some r \<Rightarrow> (Inr r, s1)
                           | None \<Rightarrow>
                               (case fastTextResult of
                                  Some r \<Rightarrow> (Inr r, s1)
                                | None \<Rightarrow> (Inr defaultResult, s1))))))))"

definition hybridLanguageDetectSync :: "jsstring \<Rightarrow> DetectionResult" where
  "hybridLanguageDetectSync t =
     (case detectWithCharScan t of Some r \<Rightarrow> r | None \<Rightarrow> defaultResult)"

text \<open>A sequence of calls, each with its text and with what the providers do during it; every
  call settles before the next one starts.\<close>

fun detectAll ::
  "(Providers \<times> jsstring) list \<Rightarrow> ModuleState \<Rightarrow> (js_error + DetectionResult) list \<times> ModuleState" where
  "detectAll [] s = ([], s)"
| "detectAll ((env, t) # calls) s =
     (case hybridLanguageDetect env s t of
        (r, s1) \<Rightarrow> (case detectAll calls s1 of (rs, s2) \<Rightarrow> (r # rs, s2)))"

section \<open>Test doubles and sample texts\<close>

text \<open>The package is not installed: the dynamic import rejects. The request of the remote
  stage fails as well. The word lists answer English, as they do for the texts
  \<^verbatim>\<open>in\<close>, \<^verbatim>\<open>in#\<close> and \<^verbatim>\<open>hello\<close>.\<close>

definition providersUnavailable :: Providers where
  "providersUnavailable =
     \<lparr> import_probe = ImportRejects, model_load = False, identify = IdentifyThrows,
       remote = RequestFails, word_rules = RuleEn \<rparr>"

text \<open>The package imports, but loading the model fails.\<close>

definition providersLoadFails :: Providers where
  "providersLoadFails =
     \<lparr> import_probe = ImportModule, model_load = False, identify = IdentifyThrows,
       remote = RequestFails, word_rules = RuleEn \<rparr>"

text \<open>The model loads, but \<^verbatim>\<open>identify\<close> throws; the request of the remote stage fails.
  The word lists answer French, as \<^verbatim>\<open>detectTextLanguage\<close> does for the text of one
  German and one French letter below: the three character counts are equal, no word matches,
  and the first entry of the list of counts is the French one.\<close>

definition providersIdentifyThrows :: Providers where
  "providersIdentifyThrows =
     \<lparr> import_probe = ImportModule, model_load = True, identify = IdentifyThrows,
       remote = RequestFails, word_rules = RuleFr \<rparr>"

text \<open>The model loads and answers with the given score and tag.\<close>

definition statisticalAnswer :: "real \<Rightarrow> string \<Rightarrow> Providers" where
  "statisticalAnswer x tag =
     \<lparr> import_probe = ImportModule, model_load = True,
       identify = Identified (Some x) (TagString tag),
       remote = RequestFails, word_rules = RuleEn \<rparr>"

text \<open>The bare word \<^verbatim>\<open>in\<close>.\<close>

definition text_in :: jsstring where
  "text_in = [0x69, 0x6E]"

text \<open>\<^verbatim>\<open>in#\<close>: the same word followed by a number sign, which is outside the class of
  rule 7.\<close>

definition text_in_hash :: jsstring where
  "text_in_hash = [0x69, 0x6E, 0x23]"

text \<open>\<^verbatim>\<open>hello\<close>\<close>

definition text_hello :: jsstring where
  "text_hello = [0x68, 0x65, 0x6C, 0x6C, 0x6F]"

text \<open>Two ideographs followed by the Hiragana letter no (\<^verbatim>\<open>65E5 672C 306E\<close>).\<close>

definition text_kanji_kana :: jsstring where
  "text_kanji_kana = [0x65E5, 0x672C, 0x306E]"

text \<open>The same two ideographs alone (\<^verbatim>\<open>65E5 672C\<close>).\<close>

definition text_kanji :: jsstring where
  "text_kanji = [0x65E5, 0x672C]"


text \<open>a-umlaut followed by e-acute: one German and one French letter.\<close>

definition text_mixed_accents :: jsstring where
  "text_mixed_accents = [0xE4, 0xE9]"

text \<open>Space, tab, ideographic space.\<close>

definition text_blank :: jsstring where
  "text_blank = [0x20, 0x09, 0x3000]"

section \<open>Character classes and trimming\<close>

lemma japanese_not_space: "is_japanese c \<Longrightarrow> \<not> is_space c"
  by (auto simp: is_japanese_def is_space_def word_le_nat_alt)

lemma chinese_not_space: "is_chinese c \<Longrightarrow> \<not> is_space c"
  by (auto simp: is_chinese_def is_space_def word_le_nat_alt)

lemma trim_empty_iff: "trim t = [] \<longleftrightarrow> (\<forall>c\<in>set t. is_space c)"
proof
  assume "trim t = []"
  then have all: "\<forall>c\<in>set (dropWhile is_space t). is_space c"
    by (simp add: trim_def dropWhile_eq_Nil_conv)
  show "\<forall>c\<in>set t. is_space c"
  proof (cases "dropWhile is_space t")
    case Nil then show ?thesis by (simp add: dropWhile_eq_Nil_conv)
  next
    case (Cons x xs)
    then have "\<not> is_space x" using hd_dropWhile[of is_space t] by simp
    with all Cons show ?thesis by simp
  qed
next
  assume "\<forall>c\<in>set t. is_space c"
  then show "trim t = []" by (auto simp: trim_def dest: set_dropWhileD)
qed

section \<open>The heuristic stage never answers below its threshold\<close>

lemma count_matches_pos: "count_matches p t > 0 \<longleftrightarrow> (\<exists>c\<in>set t. p c)"
  by (auto simp: count_matches_def filter_empty_conv)

lemma scan_fields [simp]:
  "japanese (getCharStats t) = count_matches is_japanese t"
  "chinese (getCharStats t) = count_matches is_chinese t"
  "german (getCharStats t) = count_matches is_german t"
  "french (getCharStats t) = count_matches is_french t"
  "spanish (getCharStats t) = count_matches is_spanish t"
  "accented (getCharStats t) = count_matches is_allAccented t"
  "total (getCharStats t) = length t"
  by (simp_all add: getCharStats_def scanCharacters_def)

lemma script_confidence: "0.8 \<le> min 0.98 (0.8 + (real a / real b) * 0.18)"
  "min 0.98 (0.8 + (real a / real b) * 0.18) \<le> 0.98"
  by (simp_all add: min_def)

lemma charscan_japanese:
  assumes "\<exists>c\<in>set t. is_japanese c"
  shows "detectWithCharScan t =
           Some \<lparr> language = ''ja'',
                  confidence = min 0.98 (0.8 + (real (count_matches is_japanese t) / real (length t)) * 0.18),
                  detection_method = CharScan \<rparr>"
proof -
  from assms have "count_matches is_japanese t > 0" by (simp add: count_matches_pos)
  then show ?thesis by (simp add: detectWithCharScan_def Let_def)
qed

lemma charscan_chinese:
  assumes "\<exists>c\<in>set t. is_chinese c" and "\<not> (\<exists>c\<in>set t. is_japanese c)"
  shows "detectWithCharScan t =
           Some \<lparr> language = ''zh'',
                  confidence = min 0.98 (0.8 + (real (count_matches is_chinese t) / real (length t)) * 0.18),
                  detection_method = CharScan \<rparr>"
proof -
  from assms(1) have c: "count_matches is_chinese t > 0" by (simp add: count_matches_pos)
  from assms(2) have j: "count_matches is_japanese t = 0"
    using count_matches_pos[of is_japanese t] by auto
  from c j show ?thesis by (simp add: detectWithCharScan_def Let_def)
qed

lemma quick_supported:
  "quickLanguageDetection stats t = Some l \<Longrightarrow> l \<in> set SUPPORTED_LANGUAGES"
  by (auto simp: quickLanguageDetection_def SUPPORTED_LANGUAGES_def split: if_splits)

lemma languageFilter_supported:
  "languageFilter t = Some l \<Longrightarrow> l \<in> set SUPPORTED_LANGUAGES"
  by (auto simp: languageFilter_def SUPPORTED_LANGUAGES_def dest: quick_supported split: if_splits)

lemma filterConfidence_le: "filterConfidence l stats \<le> 0.95"
  by (auto simp: filterConfidence_def min_def)

lemma script_result:
  assumes "r = \<lparr> language = l, confidence = min 0.98 (0.8 + (real a / real b) * 0.18),
                 detection_method = CharScan \<rparr>"
    and "l \<in> set SUPPORTED_LANGUAGES"
  shows "0.8 \<le> confidence r \<and> confidence r \<le> 0.98 \<and> language r \<in> set SUPPORTED_LANGUAGES
         \<and> detection_method r = CharScan"
proof -
  have c: "confidence r = min 0.98 (0.8 + (real a / real b) * 0.18)"
    and l: "language r = l" and m: "detection_method r = CharScan"
    using assms(1) by simp_all
  show ?thesis
    unfolding c l m using script_confidence[of a b] assms(2) by blast
qed

lemma charscan_cases:
  assumes "detectWithCharScan t = Some r"
  shows "0.75 < confidence r \<and> confidence r \<le> 0.98 \<and> language r \<in> set SUPPORTED_LANGUAGES
         \<and> detection_method r = CharScan"
proof (cases "\<exists>c\<in>set t. is_japanese c")
  case True
  have "r = \<lparr> language = ''ja'',
              confidence = min 0.98 (0.8 + (real (count_matches is_japanese t) / real (length t)) * 0.18),
              detection_method = CharScan \<rparr>"
    using charscan_japanese[OF True] assms by simp
  from script_result[OF this] show ?thesis by (simp add: SUPPORTED_LANGUAGES_def)
next
  case noj: False
  show ?thesis
  proof (cases "\<exists>c\<in>set t. is_chinese c")
    case True
    have "r = \<lparr> language = ''zh'',
                confidence = min 0.98 (0.8 + (real (count_matches is_chinese t) / real (length t)) * 0.18),
                detection_method = CharScan \<rparr>"
      using charscan_chinese[OF True noj] assms by simp
    from script_result[OF this] show ?thesis by (simp add: SUPPORTED_LANGUAGES_def)
  next
    case False
    with noj have z: "count_matches is_japanese t = 0" "count_matches is_chinese t = 0"
      using count_matches_pos[of is_japanese t] count_matches_pos[of is_chinese t] by auto
    from assms z obtain l where l: "languageFilter t = Some l"
      and r: "r = \<lparr> language = l, confidence = filterConfidence l (getCharStats t), detection_method = CharScan \<rparr>"
      and c: "filterConfidence l (getCharStats t) > 0.75"
      by (auto simp: detectWithCharScan_def Let_def split: option.splits if_splits)
    from filterConfidence_le[of l "getCharStats t"] have "filterConfidence l (getCharStats t) \<le> 0.98" by simp
    with l r c languageFilter_supported[OF l] show ?thesis by simp
  qed
qed

section \<open>The stages of the engine\<close>

lemma check_result:
  "\<exists>b. fst (checkFastTextAvailability env s) = Inr b"
  by (auto simp: checkFastTextAvailability_def Let_def split: option.splits import_outcome.splits)

lemma check_unavailable:
  "fastTextAvailable s = Some False \<Longrightarrow> checkFastTextAvailability env s = (Inr False, s)"
  by (simp add: checkFastTextAvailability_def)

lemma fasttext_unavailable:
  "fastTextAvailable s = Some False \<Longrightarrow> detectWithFastText env s t = (Inr None, s)"
  by (simp add: detectWithFastText_def check_unavailable)

lemma code_map_absent: "LANGUAGE_CODE_MAP [] = Undefined"
  by (simp add: LANGUAGE_CODE_MAP_def)

lemma init_result: "\<exists>b. fst (initFastText env s) = Inr b"
  by (auto simp: initFastText_def checkFastTextAvailability_def Let_def
           split: option.splits import_outcome.splits prod.splits sum.splits if_splits)

lemma fasttext_result:
  "\<exists>res. fst (detectWithFastText env s t) = Inr res \<and>
     (\<forall>r. res = Some r \<longrightarrow>
        (\<exists>x tag. identify env = Identified (Some x) (TagString tag) \<and> 0.85 < x
           \<and> LANGUAGE_CODE_MAP (toLowerCase tag) = StringValue (language r)
           \<and> language r \<in> set SUPPORTED_LANGUAGES
           \<and> confidence r = x \<and> detection_method r = FastText))"
proof -
  obtain a s1 where c: "checkFastTextAvailability env s = (Inr a, s1)"
    using check_result[of env s] by (cases "checkFastTextAvailability env s") auto
  show ?thesis
  proof (cases a)
    case False
    with c show ?thesis by (simp add: detectWithFastText_def)
  next
    case True
    obtain m s2 where i: "initFastText env s1 = (Inr m, s2)"
      using init_result[of env s1] by (cases "initFastText env s1") auto
    show ?thesis
    proof (cases m)
      case False
      with c True i show ?thesis by (simp add: detectWithFastText_def)
    next
      case m: True
      show ?thesis
      proof (cases "identify env")
        case IdentifyThrows
        with c True i m show ?thesis by (simp add: detectWithFastText_def Let_def)
      next
        case (Identified score alpha2)
        with c True i m show ?thesis
          by (cases alpha2; cases score)
             (auto simp: detectWithFastText_def Let_def tagKey_def code_map_absent
                   split: property_value.splits)
      qed
    qed
  qed
qed

lemma rule_code_ai: "rule_code l \<in> set AI_LANGUAGES"
  by (cases l) (simp_all add: AI_LANGUAGES_def)

lemma detectTextLanguage_ai: "detectTextLanguage l t \<in> set AI_LANGUAGES"
  using rule_code_ai[of l] by (simp add: detectTextLanguage_def AI_LANGUAGES_def)

lemma ai_language: "\<exists>l. detectTextLanguageWithAI env t = Inr l \<and> l \<in> set AI_LANGUAGES"
proof (cases "remote env")
  case RequestFails
  then show ?thesis using detectTextLanguage_ai by (simp add: detectTextLanguageWithAI_def)
next
  case (Content j i)
  then show ?thesis
    by (auto simp: detectTextLanguageWithAI_def AI_LANGUAGES_def split: option.splits)
qed

lemma llm_result:
  "\<exists>l. detectWithLLM env s t =
          (Inr \<lparr> language = l, confidence = 0.85, detection_method = LLM \<rparr>,
           s\<lparr> llm_calls := llm_calls s + 1 \<rparr>) \<and> l \<in> set AI_LANGUAGES"
  using ai_language[of env t] by (auto simp: detectWithLLM_def Let_def)

lemma hybrid_blank:
  assumes "\<forall>c\<in>set t. is_space c"
  shows "hybridLanguageDetect env s t = (Inr defaultResult, s)"
proof -
  from assms have "trim t = []" by (simp add: trim_empty_iff)
  then show ?thesis by (simp add: hybridLanguageDetect_def)
qed

lemma returnedAbove_charscan: "returnedAbove 0.75 (detectWithCharScan t) = detectWithCharScan t"
proof (cases "detectWithCharScan t")
  case None then show ?thesis by (simp add: returnedAbove_def)
next
  case (Some r)
  with charscan_cases[OF Some] show ?thesis by (simp add: returnedAbove_def)
qed

lemma returnedAbove_fasttext:
  "fst (detectWithFastText env s t) = Inr res \<Longrightarrow> returnedAbove 0.85 res = res"
  using fasttext_result[of env s t] by (cases res) (auto simp: returnedAbove_def)

text \<open>The result of the engine, stage by stage.\<close>

lemma hybrid_stages:
  assumes nb: "\<not> (\<forall>c\<in>set t. is_space c)"
    and ft: "detectWithFastText env s t = (Inr res, s1)"
  shows "hybridLanguageDetect env s t =
           (case res of
              Some r \<Rightarrow> (Inr r, s1)
            | None \<Rightarrow>
                (case detectWithCharScan t of
                   Some r \<Rightarrow> (Inr r, s1)
                 | None \<Rightarrow>
                     if calculateLocalConfidence t None < 0.7 then detectWithLLM env s1 t
                     else (Inr defaultResult, s1)))"
proof -
  from nb have t: "t \<noteq> []" "trim t \<noteq> []" using trim_empty_iff[of t] by auto
  from ft have r1: "returnedAbove 0.85 res = res"
    using returnedAbove_fasttext[of env s t res] by simp
  show ?thesis
    using t ft r1 returnedAbove_charscan[of t]
    by (simp add: hybridLanguageDetect_def Let_def split: option.splits)
qed

section \<open>The sample texts, evaluated\<close>

lemmas scan_defs =
  detectWithCharScan_def getCharStats_def scanCharacters_def count_matches_def
  languageFilter_def quickLanguageDetection_def filterConfidence_def trim_def test_class_def
  is_chinese_def is_japanese_def is_german_def is_french_def is_spanish_def is_enye_def
  is_inverted_mark_def is_spanishAccented_def is_allAccented_def is_space_def is_basic_def

lemma charscan_kanji_kana:
  "detectWithCharScan text_kanji_kana =
     Some \<lparr> language = ''ja'', confidence = 0.86, detection_method = CharScan \<rparr>"
  by (simp add: text_kanji_kana_def scan_defs)

lemma charscan_kanji:
  "detectWithCharScan text_kanji =
     Some \<lparr> language = ''zh'', confidence = 0.98, detection_method = CharScan \<rparr>"
  by (simp add: text_kanji_def scan_defs)

lemma charscan_in:
  "detectWithCharScan text_in = Some \<lparr> language = ''en'', confidence = 0.8, detection_method = CharScan \<rparr>"
  by (simp add: text_in_def scan_defs)

lemma charscan_in_hash: "detectWithCharScan text_in_hash = None"
  by (simp add: text_in_hash_def scan_defs)


lemma charscan_mixed: "detectWithCharScan text_mixed_accents = None"
  by (simp add: text_mixed_accents_def scan_defs)

lemma blank_text_blank: "\<forall>c\<in>set text_blank. is_space c"
  by (simp add: text_blank_def is_space_def)

lemma kana_in_kanji_kana: "\<exists>c\<in>set text_kanji_kana. is_japanese c"
  by (simp add: text_kanji_kana_def is_japanese_def)

lemma ideograph_in_kanji: "\<exists>c\<in>set text_kanji. is_chinese c"
  by (simp add: text_kanji_def is_chinese_def)

lemma no_kana_in_kanji: "\<not> (\<exists>c\<in>set text_kanji. is_japanese c)"
  by (simp add: text_kanji_def is_japanese_def)


lemma in_not_blank: "\<not> (\<forall>c\<in>set text_in. is_space c)"
  by (simp add: text_in_def is_space_def)

lemma in_hash_not_blank: "\<not> (\<forall>c\<in>set text_in_hash. is_space c)"
  by (simp add: text_in_hash_def is_space_def)


lemma mixed_not_blank: "\<not> (\<forall>c\<in>set text_mixed_accents. is_space c)"
  by (simp add: text_mixed_accents_def is_space_def)

lemma wordCount_in: "wordCount text_in = 1"
  by (simp add: wordCount_def text_in_def trim_def is_space_def)

lemma wordCount_in_hash: "wordCount text_in_hash = 1"
  by (simp add: wordCount_def text_in_hash_def trim_def is_space_def)

lemma local_in: "calculateLocalConfidence text_in (detectWithCharScan text_in) = 0.3"
  by (simp add: calculateLocalConfidence_def charscan_in wordCount_in)
     (simp add: text_in_def count_matches_def is_japanese_def is_chinese_def is_german_def
                is_french_def is_spanish_def)

lemma local_in_hash: "calculateLocalConfidence text_in_hash None = 0.3"
  by (simp add: calculateLocalConfidence_def wordCount_in_hash)
     (simp add: text_in_hash_def count_matches_def is_japanese_def is_chinese_def is_german_def
                is_french_def is_spanish_def)

lemma local_mixed: "calculateLocalConfidence text_mixed_accents None = 0.8"
  by (simp add: calculateLocalConfidence_def)
     (simp add: text_mixed_accents_def count_matches_def is_japanese_def is_chinese_def is_german_def
                is_french_def is_spanish_def)

lemma code_map_zh: "LANGUAGE_CODE_MAP (toLowerCase ''zh'') = StringValue ''zh''"
  by (simp add: LANGUAGE_CODE_MAP_def toLowerCase_def lowerChar_def)

lemma code_map_ja: "LANGUAGE_CODE_MAP (toLowerCase ''ja'') = StringValue ''ja''"
  by (simp add: LANGUAGE_CODE_MAP_def toLowerCase_def lowerChar_def)


lemma code_map_ZH_TW: "LANGUAGE_CODE_MAP (toLowerCase ''ZH-TW'') = StringValue ''zh''"
  by (simp add: LANGUAGE_CODE_MAP_def toLowerCase_def lowerChar_def)

lemma supported_members:
  "''en'' \<in> set SUPPORTED_LANGUAGES" "''zh'' \<in> set SUPPORTED_LANGUAGES"
  "''ja'' \<in> set SUPPORTED_LANGUAGES" "''es'' \<in> set SUPPORTED_LANGUAGES"
  by (simp_all add: SUPPORTED_LANGUAGES_def)

section \<open>The result of the engine\<close>

lemma blank_or_not:
  "\<not> (\<forall>c\<in>set t. is_space c) \<Longrightarrow> t \<noteq> [] \<and> trim t \<noteq> []"
  using trim_empty_iff[of t] by auto

lemma fasttext_pair:
  "\<exists>res s1. detectWithFastText env s t = (Inr res, s1)"
  using fasttext_result[of env s t] by (cases "detectWithFastText env s t") auto

lemma hybrid_outcome:
  "\<exists>r s'. hybridLanguageDetect env s t = (Inr r, s') \<and>
     (r = defaultResult
      \<or> fst (detectWithFastText env s t) = Inr (Some r)
      \<or> detectWithCharScan t = Some r
      \<or> (\<exists>l\<in>set AI_LANGUAGES. r = \<lparr> language = l, confidence = 0.85, detection_method = LLM \<rparr>))"
proof (cases "\<forall>c\<in>set t. is_space c")
  case True
  from hybrid_blank[OF True, of env s] show ?thesis by simp
next
  case False
  obtain res s1 where ft: "detectWithFastText env s t = (Inr res, s1)"
    using fasttext_pair by blast
  obtain l where l: "detectWithLLM env s1 t =
          (Inr \<lparr> language = l, confidence = 0.85, detection_method = LLM \<rparr>,
           s1\<lparr> llm_calls := llm_calls s1 + 1 \<rparr>)" "l \<in> set AI_LANGUAGES"
    using llm_result[of env s1 t] by blast
  show ?thesis
    using hybrid_stages[OF False ft] ft l
    by (cases res; cases "detectWithCharScan t") auto
qed




lemma hybrid_fallback_is_default:
  "\<exists>r. fst (hybridLanguageDetect env s t) = Inr r \<and> (detection_method r = Fallback \<longrightarrow> r = defaultResult)"
proof -
  obtain r s' where h: "hybridLanguageDetect env s t = (Inr r, s')"
    and c: "r = defaultResult
      \<or> fst (detectWithFastText env s t) = Inr (Some r)
      \<or> detectWithCharScan t = Some r
      \<or> (\<exists>l\<in>set AI_LANGUAGES. r = \<lparr> language = l, confidence = 0.85, detection_method = LLM \<rparr>)"
    using hybrid_outcome[of env s t] by blast
  have "detection_method r = Fallback \<longrightarrow> r = defaultResult"
    using c
  proof (elim disjE)
    assume f: "fst (detectWithFastText env s t) = Inr (Some r)"
    from fasttext_result[of env s t] f have "detection_method r = FastText" by auto
    then show ?thesis by simp
  next
    assume "detectWithCharScan t = Some r"
    from charscan_cases[OF this] show ?thesis by simp
  qed auto
  with h show ?thesis by simp
qed

lemma hybrid_without_statistical:
  assumes nb: "\<not> (\<forall>c\<in>set t. is_space c)"
    and ft: "fst (detectWithFastText env s t) = Inr None"
    and cs: "detectWithCharScan t = Some r"
  shows "fst (hybridLanguageDetect env s t) = Inr r"
proof -
  obtain s1 where "detectWithFastText env s t = (Inr None, s1)"
    using ft by (cases "detectWithFastText env s t") auto
  from hybrid_stages[OF nb this] cs show ?thesis by simp
qed

lemma hybrid_with_statistical:
  assumes nb: "\<not> (\<forall>c\<in>set t. is_space c)"
    and ft: "fst (detectWithFastText env s t) = Inr (Some r)"
  shows "fst (hybridLanguageDetect env s t) = Inr r"
proof -
  obtain s1 where "detectWithFastText env s t = (Inr (Some r), s1)"
    using ft by (cases "detectWithFastText env s t") auto
  from hybrid_stages[OF nb this] show ?thesis by simp
qed

lemma kana_not_blank: "\<exists>c\<in>set t. is_japanese c \<Longrightarrow> \<not> (\<forall>c\<in>set t. is_space c)"
  using japanese_not_space by blast

lemma ideograph_not_blank: "\<exists>c\<in>set t. is_chinese c \<Longrightarrow> \<not> (\<forall>c\<in>set t. is_space c)"
  using chinese_not_space by blast

lemma fasttext_identify_throws:
  assumes "identify env = IdentifyThrows"
  shows "fst (detectWithFastText env s t) = Inr None"
proof -
  obtain res where r: "fst (detectWithFastText env s t) = Inr res"
    and p: "\<forall>r. res = Some r \<longrightarrow> (\<exists>x tag. identify env = Identified (Some x) (TagString tag))"
    using fasttext_result[of env s t] by blast
  from p assms have "res = None" by (cases res) auto
  with r show ?thesis by simp
qed

lemma llm_request_fails:
  assumes "remote env = RequestFails"
  shows "fst (detectWithLLM env s t) =
           Inr \<lparr> language = detectTextLanguage (word_rules env) t, confidence = 0.85,
                 detection_method = LLM \<rparr>"
  using assms by (simp add: detectWithLLM_def detectTextLanguageWithAI_def Let_def)

lemma fasttext_llm_calls: "llm_calls (snd (detectWithFastText env s t)) = llm_calls s"
  by (auto simp: detectWithFastText_def initFastText_def checkFastTextAvailability_def Let_def
           split: option.splits import_outcome.splits identify_outcome.splits sum.splits
                  property_value.splits if_splits)

lemma fasttext_ready:
  assumes "fastTextAvailable s = Some True" and "fastTextModel s"
    and "identify env = Identified (Some x) (TagString tag)" and "0.85 < x"
    and "LANGUAGE_CODE_MAP (toLowerCase tag) = StringValue l" and "l \<in> set SUPPORTED_LANGUAGES"
  shows "fst (detectWithFastText env s t) =
           Inr (Some \<lparr> language = l, confidence = x, detection_method = FastText \<rparr>)"
  using assms
  by (simp add: detectWithFastText_def initFastText_def checkFastTextAvailability_def
                tagKey_def Let_def)

lemma check_value:
  "checkFastTextAvailability env s =
     (case fastTextAvailable s of
        Some known \<Rightarrow> (Inr known, s)
      | None \<Rightarrow>
          (Inr (import_probe env = ImportModule),
           s\<lparr> import_probes := import_probes s + 1,
               fastTextAvailable := Some (import_probe env = ImportModule) \<rparr>))"
  by (cases "import_probe env")
     (simp_all add: checkFastTextAvailability_def Let_def split: option.splits)

lemma init_value:
  assumes "fastTextAvailable s = Some True"
  shows "fst (initFastText env s) =
           Inr (fastTextModel s \<or> (fastTextLoading s \<and> fastTextLoadPromise s = Some True)
                \<or> ((\<not> fastTextLoading s \<or> fastTextLoadPromise s = None) \<and> model_load env))"
  using assms
  by (auto simp: initFastText_def checkFastTextAvailability_def Let_def split: option.splits)

lemma fasttext_no_import:
  assumes "fastTextAvailable s = None" and "import_probe env \<noteq> ImportModule"
  shows "fst (detectWithFastText env s t) = Inr None"
  using assms by (simp add: detectWithFastText_def check_value)

lemma fasttext_no_model:
  assumes "\<not> (fastTextModel s \<or> (fastTextLoading s \<and> fastTextLoadPromise s = Some True)
                \<or> ((\<not> fastTextLoading s \<or> fastTextLoadPromise s = None) \<and> model_load env))"
  shows "fst (detectWithFastText env s t) = Inr None"
proof (cases "fastTextAvailable s = Some True \<or> (fastTextAvailable s = None \<and> import_probe env = ImportModule)")
  case False
  then show ?thesis
    by (cases "fastTextAvailable s") (auto simp: detectWithFastText_def check_value)
next
  case True
  define s1 where "s1 = snd (checkFastTextAvailability env s)"
  have c: "checkFastTextAvailability env s = (Inr True, s1)"
    using True unfolding s1_def by (auto simp: check_value)
  have f: "fastTextAvailable s1 = Some True" and same: "fastTextModel s1 = fastTextModel s"
    "fastTextLoading s1 = fastTextLoading s" "fastTextLoadPromise s1 = fastTextLoadPromise s"
    using True unfolding s1_def by (auto simp: check_value)
  have "fst (initFastText env s1) = Inr False"
    using init_value[OF f, of env] assms unfolding same by simp
  then obtain s2 where "initFastText env s1 = (Inr False, s2)"
    by (cases "initFastText env s1") auto
  with c show ?thesis by (simp add: detectWithFastText_def)
qed

lemma fasttext_answers:
  assumes a: "fastTextAvailable s = Some True \<or> (fastTextAvailable s = None \<and> import_probe env = ImportModule)"
    and m: "fastTextModel s \<or> (fastTextLoading s \<and> fastTextLoadPromise s = Some True)
                \<or> ((\<not> fastTextLoading s \<or> fastTextLoadPromise s = None) \<and> model_load env)"
    and i: "identify env = Identified (Some x) (TagString tag)" and x: "0.85 < x"
    and l: "LANGUAGE_CODE_MAP (toLowerCase tag) = StringValue l" "l \<in> set SUPPORTED_LANGUAGES"
  shows "fst (detectWithFastText env s t) =
           Inr (Some \<lparr> language = l, confidence = x, detection_method = FastText \<rparr>)"
proof -
  define s1 where "s1 = snd (checkFastTextAvailability env s)"
  have c: "checkFastTextAvailability env s = (Inr True, s1)"
    using a unfolding s1_def by (auto simp: check_value)
  have f: "fastTextAvailable s1 = Some True" and same: "fastTextModel s1 = fastTextModel s"
    "fastTextLoading s1 = fastTextLoading s" "fastTextLoadPromise s1 = fastTextLoadPromise s"
    using a unfolding s1_def by (auto simp: check_value)
  have "fst (initFastText env s1) = Inr True"
    using init_value[OF f, of env] m unfolding same by simp
  then obtain s2 where "initFastText env s1 = (Inr True, s2)"
    by (cases "initFastText env s1") auto
  with c i x l show ?thesis by (simp add: detectWithFastText_def tagKey_def Let_def)
qed

lemma fasttext_needs_import:
  assumes "fst (detectWithFastText env s t) = Inr (Some r)"
  shows "fastTextAvailable s = Some True \<or> (fastTextAvailable s = None \<and> import_probe env = ImportModule)"
proof (rule ccontr)
  assume n: "\<not> ?thesis"
  have "fst (detectWithFastText env s t) = Inr None"
  proof (cases "fastTextAvailable s")
    case None
    with n show ?thesis using fasttext_no_import by simp
  next
    case (Some b)
    with n have "fastTextAvailable s = Some False" by (cases b) auto
    then show ?thesis by (simp add: fasttext_unavailable)
  qed
  with assms show False by simp
qed

section \<open>The test doubles, evaluated\<close>

lemma fasttext_providersUnavailable:
  "detectWithFastText providersUnavailable initialState t =
     (Inr None, initialState\<lparr> fastTextAvailable := Some False, import_probes := 1 \<rparr>)"
  by (simp add: detectWithFastText_def checkFastTextAvailability_def providersUnavailable_def
                initialState_def Let_def)

lemma fasttext_statisticalAnswer:
  assumes "0.85 < x" and "LANGUAGE_CODE_MAP (toLowerCase tag) = StringValue l"
    and "l \<in> set SUPPORTED_LANGUAGES"
  shows "fst (detectWithFastText (statisticalAnswer x tag) initialState t) =
           Inr (Some \<lparr> language = l, confidence = x, detection_method = FastText \<rparr>)"
  using assms
  by (simp add: detectWithFastText_def initFastText_def checkFastTextAvailability_def
                statisticalAnswer_def initialState_def tagKey_def Let_def)

lemma hybrid_mixed:
  "fst (hybridLanguageDetect providersIdentifyThrows initialState text_mixed_accents) = Inr defaultResult"
proof -
  have "identify providersIdentifyThrows = IdentifyThrows" by (simp add: providersIdentifyThrows_def)
  from fasttext_identify_throws[OF this, of initialState text_mixed_accents]
  obtain s1 where "detectWithFastText providersIdentifyThrows initialState text_mixed_accents = (Inr None, s1)"
    by (cases "detectWithFastText providersIdentifyThrows initialState text_mixed_accents") auto
  from hybrid_stages[OF mixed_not_blank this] show ?thesis
    by (simp add: charscan_mixed local_mixed)
qed

lemma load_fails_env: "import_probe providersLoadFails \<noteq> ImportModule \<or> \<not> model_load providersLoadFails"
  by (simp add: providersLoadFails_def)

section \<open>An unavailable model stays unavailable\<close>

lemma hybrid_unavailable_state:
  assumes "fastTextAvailable s = Some False"
  shows "\<exists>n. snd (hybridLanguageDetect env s t) = s\<lparr> llm_calls := n \<rparr>"
proof (cases "\<forall>c\<in>set t. is_space c")
  case True
  from hybrid_blank[OF True, of env s] have "snd (hybridLanguageDetect env s t) = s\<lparr> llm_calls := llm_calls s \<rparr>"
    by simp
  then show ?thesis by blast
next
  case False
  obtain l where l: "detectWithLLM env s t =
          (Inr \<lparr> language = l, confidence = 0.85, detection_method = LLM \<rparr>,
           s\<lparr> llm_calls := llm_calls s + 1 \<rparr>)"
    using llm_result[of env s t] by blast
  have "snd (hybridLanguageDetect env s t) = s\<lparr> llm_calls := llm_calls s \<rparr>
        \<or> snd (hybridLanguageDetect env s t) = s\<lparr> llm_calls := llm_calls s + 1 \<rparr>"
    using hybrid_stages[OF False fasttext_unavailable[OF assms]] l
    by (cases "detectWithCharScan t") auto
  then show ?thesis by blast
qed

lemma detectAll_unavailable_state:
  "fastTextAvailable s = Some False \<Longrightarrow> \<exists>n. snd (detectAll calls s) = s\<lparr> llm_calls := n \<rparr>"
proof (induction calls arbitrary: s)
  case Nil
  have "snd (detectAll [] s) = s\<lparr> llm_calls := llm_calls s \<rparr>" by simp
  then show ?case by blast
next
  case (Cons call calls)
  obtain env t where call: "call = (env, t)" by (cases call)
  obtain n where n: "snd (hybridLanguageDetect env s t) = s\<lparr> llm_calls := n \<rparr>"
    using hybrid_unavailable_state[OF Cons.prems] by blast
  have "fastTextAvailable (s\<lparr> llm_calls := n \<rparr>) = Some False" using Cons.prems by simp
  from Cons.IH[OF this] obtain m where
    m: "snd (detectAll calls (s\<lparr> llm_calls := n \<rparr>)) = s\<lparr> llm_calls := n \<rparr>\<lparr> llm_calls := m \<rparr>"
    by blast
  obtain r where r: "hybridLanguageDetect env s t = (r, s\<lparr> llm_calls := n \<rparr>)"
    using n by (cases "hybridLanguageDetect env s t") simp
  obtain rs where rs: "detectAll calls (s\<lparr> llm_calls := n \<rparr>) = (rs, s\<lparr> llm_calls := m \<rparr>)"
    using m by (cases "detectAll calls (s\<lparr> llm_calls := n \<rparr>)") simp
  have "snd (detectAll (call # calls) s) = s\<lparr> llm_calls := m \<rparr>"
    by (simp add: call r rs)
  then show ?case by blast
qed

lemma first_load_failure:
  assumes "import_probe env \<noteq> ImportModule \<or> \<not> model_load env"
  shows "detectWithFastText env initialState t =
           (Inr None,
            initialState\<lparr> fastTextAvailable := Some False, import_probes := 1,
                          load_attempts := (if import_probe env = ImportModule then 1 else 0) \<rparr>)"
  using assms
  by (cases "import_probe env")
     (auto simp: detectWithFastText_def initFastText_def checkFastTextAvailability_def
                 initialState_def Let_def)

lemma first_load_failure_state:
  assumes nb: "\<not> (\<forall>c\<in>set t. is_space c)"
    and fails: "import_probe env \<noteq> ImportModule \<or> \<not> model_load env"
  shows "\<exists>n. snd (hybridLanguageDetect env initialState t) =
           initialState\<lparr> fastTextAvailable := Some False, import_probes := 1,
                         load_attempts := (if import_probe env = ImportModule then 1 else 0),
                         llm_calls := n \<rparr>"
proof -
  let ?s1 = "initialState\<lparr> fastTextAvailable := Some False, import_probes := 1,
                          load_attempts := (if import_probe env = ImportModule then 1 else 0) \<rparr>"
  obtain l where l: "detectWithLLM env ?s1 t =
          (Inr \<lparr> language = l, confidence = 0.85, detection_method = LLM \<rparr>,
           ?s1\<lparr> llm_calls := llm_calls ?s1 + 1 \<rparr>)"
    using llm_result[of env ?s1 t] by blast
  have "snd (hybridLanguageDetect env initialState t) = ?s1\<lparr> llm_calls := llm_calls ?s1 \<rparr>
        \<or> snd (hybridLanguageDetect env initialState t) = ?s1\<lparr> llm_calls := llm_calls ?s1 + 1 \<rparr>"
    using hybrid_stages[OF nb first_load_failure[OF fails]] l
    by (cases "detectWithCharScan t") auto
  then show ?thesis by blast
qed

section \<open>The claims\<close>

text \<open>
  Claim C1, as amended. For every text with at least one Kana code unit (Hiragana
  \<^verbatim>\<open>3040..309F\<close>, Katakana \<^verbatim>\<open>30A0..30FF\<close>), whatever ideographs stand beside it,
  \<^verbatim>\<open>hybridLanguageDetectSync\<close> returns the language \<^verbatim>\<open>ja\<close>. So does
  \<^verbatim>\<open>hybridLanguageDetect\<close>, in every module state and for every behaviour of the remote
  provider, whenever the statistical stage gives no result; a result of the statistical stage is
  returned as it is, before the character scan runs.
\<close>

theorem kana_text_is_japanese:
  assumes "\<exists>c\<in>set t. is_japanese c"
  shows "language (hybridLanguageDetectSync t) = ''ja''
         \<and> (fst (detectWithFastText env s t) = Inr None \<longrightarrow>
              (\<exists>r. fst (hybridLanguageDetect env s t) = Inr r \<and> language r = ''ja''))
         \<and> (\<forall>r. fst (detectWithFastText env s t) = Inr (Some r) \<longrightarrow>
              fst (hybridLanguageDetect env s t) = Inr r)"
proof -
  note cs = charscan_japanese[OF assms]
  note nb = kana_not_blank[OF assms]
  have a: "language (hybridLanguageDetectSync t) = ''ja''"
    by (simp add: hybridLanguageDetectSync_def cs)
  have b: "fst (detectWithFastText env s t) = Inr None \<longrightarrow>
              (\<exists>r. fst (hybridLanguageDetect env s t) = Inr r \<and> language r = ''ja'')"
    using hybrid_without_statistical[OF nb _ cs, of env s] by simp
  have c: "\<forall>r. fst (detectWithFastText env s t) = Inr (Some r) \<longrightarrow>
              fst (hybridLanguageDetect env s t) = Inr r"
    using hybrid_with_statistical[OF nb, of env s] by blast
  from a b c show ?thesis by blast
qed

theorem kana_text_is_japanese_witness:
  "(\<exists>c\<in>set text_kanji_kana. is_japanese c)
   \<and> language (hybridLanguageDetectSync text_kanji_kana) = ''ja''
   \<and> fst (detectWithFastText providersUnavailable initialState text_kanji_kana) = Inr None
   \<and> (\<exists>r. fst (hybridLanguageDetect providersUnavailable initialState text_kanji_kana) = Inr r
          \<and> language r = ''ja'')"
  using kana_text_is_japanese[OF kana_in_kanji_kana, of providersUnavailable initialState]
        kana_in_kanji_kana
  by (simp add: fasttext_providersUnavailable)

text \<open>
  The claim as first stated covers every behaviour of the statistical provider. It fails when
  the model answers: for two ideographs followed by a Hiragana letter, a model that reports
  \<^verbatim>\<open>zh\<close> with score 0.9 decides the result.
\<close>

theorem kana_text_statistical_counterexample:
  "list_ex is_japanese text_kanji_kana
   \<and> fst (hybridLanguageDetect (statisticalAnswer 0.9 ''zh'') initialState text_kanji_kana) =
       Inr \<lparr> language = ''zh'', confidence = 0.9, detection_method = FastText \<rparr>
   \<and> ''zh'' \<noteq> ''ja''"
proof -
  have "fst (detectWithFastText (statisticalAnswer 0.9 ''zh'') initialState text_kanji_kana) =
          Inr (Some \<lparr> language = ''zh'', confidence = 0.9, detection_method = FastText \<rparr>)"
    by (rule fasttext_statisticalAnswer) (simp_all add: code_map_zh supported_members)
  from hybrid_with_statistical[OF kana_not_blank[OF kana_in_kanji_kana] this] kana_in_kanji_kana
  show ?thesis by (simp add: list_ex_iff)
qed

text \<open>
  Claim C2. For the bare word \<^verbatim>\<open>in\<close> the local-confidence estimate is 0.3, below 0.7, but
  \<^verbatim>\<open>hybridLanguageDetect\<close> never reaches it: rule 7 of the pre-filter answers English for
  a text of basic letters, the character scan gives it confidence 0.8, and stage H returns.
  Whatever the providers do and whatever the module state is, the remote stage is not called
  for this input and the result does not carry the method llm. With the package not installed
  the result is English, 0.8, charscan.
\<close>

theorem bare_word_skips_remote:
  "calculateLocalConfidence text_in (detectWithCharScan text_in) = 0.3
   \<and> (\<exists>r. fst (hybridLanguageDetect env s text_in) = Inr r \<and> detection_method r \<noteq> LLM)
   \<and> llm_calls (snd (hybridLanguageDetect env s text_in)) = llm_calls s
   \<and> hybridLanguageDetect providersUnavailable initialState text_in =
       (Inr \<lparr> language = ''en'', confidence = 0.8, detection_method = CharScan \<rparr>,
        initialState\<lparr> fastTextAvailable := Some False, import_probes := 1 \<rparr>)"
proof -
  obtain res s1 where ft: "detectWithFastText env s text_in = (Inr res, s1)"
    using fasttext_pair by blast
  have s1: "llm_calls s1 = llm_calls s" using fasttext_llm_calls[of env s text_in] ft by simp
  have h: "hybridLanguageDetect env s text_in =
      (case res of Some r \<Rightarrow> (Inr r, s1)
       | None \<Rightarrow> (Inr \<lparr> language = ''en'', confidence = 0.8, detection_method = CharScan \<rparr>, s1))"
    using hybrid_stages[OF in_not_blank ft] by (cases res) (simp_all add: charscan_in)
  have m: "\<exists>r. fst (hybridLanguageDetect env s text_in) = Inr r \<and> detection_method r \<noteq> LLM"
  proof (cases res)
    case None
    with h show ?thesis by simp
  next
    case (Some r)
    with fasttext_result[of env s text_in] ft have "detection_method r = FastText" by auto
    with h Some show ?thesis by simp
  qed
  have c: "llm_calls (snd (hybridLanguageDetect env s text_in)) = llm_calls s"
    using h s1 by (cases res) auto
  have e: "hybridLanguageDetect providersUnavailable initialState text_in =
       (Inr \<lparr> language = ''en'', confidence = 0.8, detection_method = CharScan \<rparr>,
        initialState\<lparr> fastTextAvailable := Some False, import_probes := 1 \<rparr>)"
    using hybrid_stages[OF in_not_blank fasttext_providersUnavailable] by (simp add: charscan_in)
  from local_in m c e show ?thesis by blast
qed

text \<open>
  Claim C3. The claim has \<^verbatim>\<open>hybridLanguageDetect\<close> never reject and every failure end
  in the low-confidence default result (English, 0.5, fallback). The code does not do the
  second. \<^verbatim>\<open>detectTextLanguageWithAI\<close> absorbs every error of its request and answers
  with the rule-based language, so the \<^verbatim>\<open>catch\<close> of \<^verbatim>\<open>detectWithLLM\<close>, which would
  return the default result, is never taken: for every behaviour of the remote provider
  \<^verbatim>\<open>detectWithLLM\<close> returns the method llm with confidence 0.85. With the package not
  installed, the text \<^verbatim>\<open>in#\<close> on which the character scan abstains, and a failing
  request, \<^verbatim>\<open>hybridLanguageDetect\<close> resolves to English, 0.85, llm.
\<close>

theorem remote_failure_not_default:
  "import_probe providersUnavailable = ImportRejects
   \<and> remote providersUnavailable = RequestFails
   \<and> detectWithCharScan text_in_hash = None
   \<and> calculateLocalConfidence text_in_hash None = 0.3
   \<and> detectTextLanguageWithAI providersUnavailable text_in_hash = Inr ''en''
   \<and> hybridLanguageDetect providersUnavailable initialState text_in_hash =
        (Inr \<lparr> language = ''en'', confidence = 0.85, detection_method = LLM \<rparr>,
         initialState\<lparr> fastTextAvailable := Some False, import_probes := 1, llm_calls := 1 \<rparr>)
   \<and> \<lparr> language = ''en'', confidence = 0.85, detection_method = LLM \<rparr> \<noteq> defaultResult
   \<and> (\<exists>l. detectWithLLM env s t =
              (Inr \<lparr> language = l, confidence = 0.85, detection_method = LLM \<rparr>,
               s\<lparr> llm_calls := llm_calls s + 1 \<rparr>))"
proof -
  have ai: "detectTextLanguageWithAI providersUnavailable text_in_hash = Inr ''en''"
    by (simp add: detectTextLanguageWithAI_def detectTextLanguage_def test_class_def
                  providersUnavailable_def text_in_hash_def is_japanese_def is_chinese_def)
  have h: "hybridLanguageDetect providersUnavailable initialState text_in_hash =
        (Inr \<lparr> language = ''en'', confidence = 0.85, detection_method = LLM \<rparr>,
         initialState\<lparr> fastTextAvailable := Some False, import_probes := 1, llm_calls := 1 \<rparr>)"
    using hybrid_stages[OF in_hash_not_blank fasttext_providersUnavailable]
    by (simp add: charscan_in_hash local_in_hash detectWithLLM_def ai Let_def initialState_def)
  have p: "import_probe providersUnavailable = ImportRejects"
    "remote providersUnavailable = RequestFails"
    by (simp_all add: providersUnavailable_def)
  have ne: "\<lparr> language = ''en'', confidence = 0.85, detection_method = LLM \<rparr> \<noteq> defaultResult"
    by (simp add: defaultResult_def)
  have dead: "\<exists>l. detectWithLLM env s t =
              (Inr \<lparr> language = l, confidence = 0.85, detection_method = LLM \<rparr>,
               s\<lparr> llm_calls := llm_calls s + 1 \<rparr>)"
    using llm_result[of env s t] by blast
  from p charscan_in_hash local_in_hash ai h ne dead show ?thesis by blast
qed

text \<open>
  Claim C4, as amended. For every text with at least one ideograph (\<^verbatim>\<open>4E00..9FA5\<close>) and no
  Kana, \<^verbatim>\<open>hybridLanguageDetectSync\<close> returns the language \<^verbatim>\<open>zh\<close>. So does
  \<^verbatim>\<open>hybridLanguageDetect\<close>, in every module state and for every behaviour of the remote
  provider, whenever the statistical stage gives no result; a result of the statistical stage is
  returned as it is, before the character scan runs.
\<close>

theorem ideograph_text_is_chinese:
  assumes "\<exists>c\<in>set t. is_chinese c" and "\<not> (\<exists>c\<in>set t. is_japanese c)"
  shows "language (hybridLanguageDetectSync t) = ''zh''
         \<and> (fst (detectWithFastText env s t) = Inr None \<longrightarrow>
              (\<exists>r. fst (hybridLanguageDetect env s t) = Inr r \<and> language r = ''zh''))
         \<and> (\<forall>r. fst (detectWithFastText env s t) = Inr (Some r) \<longrightarrow>
              fst (hybridLanguageDetect env s t) = Inr r)"
proof -
  note cs = charscan_chinese[OF assms]
  note nb = ideograph_not_blank[OF assms(1)]
  have a: "language (hybridLanguageDetectSync t) = ''zh''"
    by (simp add: hybridLanguageDetectSync_def cs)
  have b: "fst (detectWithFastText env s t) = Inr None \<longrightarrow>
              (\<exists>r. fst (hybridLanguageDetect env s t) = Inr r \<and> language r = ''zh'')"
    using hybrid_without_statistical[OF nb _ cs, of env s] by simp
  have c: "\<forall>r. fst (detectWithFastText env s t) = Inr (Some r) \<longrightarrow>
              fst (hybridLanguageDetect env s t) = Inr r"
    using hybrid_with_statistical[OF nb, of env s] by blast
  from a b c show ?thesis by blast
qed

theorem ideograph_text_is_chinese_witness:
  "(\<exists>c\<in>set text_kanji. is_chinese c) \<and> \<not> (\<exists>c\<in>set text_kanji. is_japanese c)
   \<and> language (hybridLanguageDetectSync text_kanji) = ''zh''
   \<and> fst (detectWithFastText providersUnavailable initialState text_kanji) = Inr None
   \<and> (\<exists>r. fst (hybridLanguageDetect providersUnavailable initialState text_kanji) = Inr r
          \<and> language r = ''zh'')"
  using ideograph_text_is_chinese[OF ideograph_in_kanji no_kana_in_kanji,
          of providersUnavailable initialState]
        ideograph_in_kanji no_kana_in_kanji
  by (simp add: fasttext_providersUnavailable)

text \<open>
  The claim as first stated holds for every call. It fails when the statistical model answers:
  for a text of two ideographs, a model that reports \<^verbatim>\<open>ja\<close> with score 0.9 decides the
  result.
\<close>

theorem ideograph_text_statistical_counterexample:
  "list_ex is_chinese text_kanji \<and> \<not> list_ex is_japanese text_kanji
   \<and> fst (hybridLanguageDetect (statisticalAnswer 0.9 ''ja'') initialState text_kanji) =
       Inr \<lparr> language = ''ja'', confidence = 0.9, detection_method = FastText \<rparr>
   \<and> ''ja'' \<noteq> ''zh''"
proof -
  have "fst (detectWithFastText (statisticalAnswer 0.9 ''ja'') initialState text_kanji) =
          Inr (Some \<lparr> language = ''ja'', confidence = 0.9, detection_method = FastText \<rparr>)"
    by (rule fasttext_statisticalAnswer) (simp_all add: code_map_ja supported_members)
  from hybrid_with_statistical[OF ideograph_not_blank[OF ideograph_in_kanji] this]
       ideograph_in_kanji no_kana_in_kanji
  show ?thesis by (simp add: list_ex_iff)
qed




text \<open>
  Claim C6. Calls are taken one after the other, each settling before the next starts. If, in
  the first call that reaches the statistical stage, the dynamic import does not deliver the
  module or the loading of the model fails, the flag \<^verbatim>\<open>fastTextAvailable\<close> is
  \<^verbatim>\<open>false\<close> afterwards, with one import attempted and at most one load. After every later
  sequence of calls, whatever their texts and whatever the providers would do, the flag is still
  \<^verbatim>\<open>false\<close>, the counts of imports and loads are what they were, the model was never asked
  to identify, and the statistical stage answers \<^verbatim>\<open>null\<close> without touching the state.
\<close>

theorem load_failure_is_permanent:
  assumes "\<not> (\<forall>c\<in>set t0. is_space c)"
    and "import_probe env0 \<noteq> ImportModule \<or> \<not> model_load env0"
  shows "fastTextAvailable (snd (hybridLanguageDetect env0 initialState t0)) = Some False
     \<and> import_probes (snd (hybridLanguageDetect env0 initialState t0)) = 1
     \<and> load_attempts (snd (hybridLanguageDetect env0 initialState t0)) =
         (if import_probe env0 = ImportModule then 1 else 0)
     \<and> (\<forall>calls.
          fastTextAvailable (snd (detectAll calls (snd (hybridLanguageDetect env0 initialState t0)))) = Some False
          \<and> import_probes (snd (detectAll calls (snd (hybridLanguageDetect env0 initialState t0)))) = 1
          \<and> load_attempts (snd (detectAll calls (snd (hybridLanguageDetect env0 initialState t0)))) =
              (if import_probe env0 = ImportModule then 1 else 0)
          \<and> identify_calls (snd (detectAll calls (snd (hybridLanguageDetect env0 initialState t0)))) = 0
          \<and> (\<forall>env t.
                detectWithFastText env (snd (detectAll calls (snd (hybridLanguageDetect env0 initialState t0)))) t =
                  (Inr None, snd (detectAll calls (snd (hybridLanguageDetect env0 initialState t0))))))"
proof -
  obtain n where n: "snd (hybridLanguageDetect env0 initialState t0) =
           initialState\<lparr> fastTextAvailable := Some False, import_probes := 1,
                         load_attempts := (if import_probe env0 = ImportModule then 1 else 0),
                         llm_calls := n \<rparr>"
    using first_load_failure_state[OF assms] by blast
  let ?s1 = "snd (hybridLanguageDetect env0 initialState t0)"
  have flag: "fastTextAvailable ?s1 = Some False" by (simp add: n)
  have now: "import_probes ?s1 = 1"
      "load_attempts ?s1 = (if import_probe env0 = ImportModule then 1 else 0)"
      "identify_calls ?s1 = 0"
    unfolding n by (simp_all add: initialState_def)
  have later: "fastTextAvailable (snd (detectAll calls ?s1)) = Some False
          \<and> import_probes (snd (detectAll calls ?s1)) = 1
          \<and> load_attempts (snd (detectAll calls ?s1)) = (if import_probe env0 = ImportModule then 1 else 0)
          \<and> identify_calls (snd (detectAll calls ?s1)) = 0
          \<and> (\<forall>env t. detectWithFastText env (snd (detectAll calls ?s1)) t = (Inr None, snd (detectAll calls ?s1)))"
    for calls
  proof -
    obtain m where m: "snd (detectAll calls ?s1) = ?s1\<lparr> llm_calls := m \<rparr>"
      using detectAll_unavailable_state[OF flag] by blast
    have f2: "fastTextAvailable (snd (detectAll calls ?s1)) = Some False"
      unfolding m using flag by simp
    have "\<forall>env t. detectWithFastText env (snd (detectAll calls ?s1)) t = (Inr None, snd (detectAll calls ?s1))"
      using fasttext_unavailable[OF f2] by blast
    moreover have "import_probes (snd (detectAll calls ?s1)) = 1"
      "load_attempts (snd (detectAll calls ?s1)) = (if import_probe env0 = ImportModule then 1 else 0)"
      "identify_calls (snd (detectAll calls ?s1)) = 0"
      unfolding m using now by simp_all
    ultimately show ?thesis using f2 by blast
  qed
  from flag now later show ?thesis by blast
qed

theorem load_failure_is_permanent_witness:
  "\<not> list_all is_space text_in
   \<and> import_probe providersLoadFails = ImportModule \<and> \<not> model_load providersLoadFails
   \<and> load_attempts (snd (hybridLanguageDetect providersLoadFails initialState text_in)) = 1
   \<and> fastTextAvailable (snd (hybridLanguageDetect providersLoadFails initialState text_in)) = Some False
   \<and> load_attempts (snd (detectAll [(statisticalAnswer 0.99 ''en'', text_hello),
                                      (statisticalAnswer 0.99 ''ja'', text_kanji_kana)]
        (snd (hybridLanguageDetect providersLoadFails initialState text_in)))) = 1
   \<and> import_probes (snd (detectAll [(statisticalAnswer 0.99 ''en'', text_hello),
                                      (statisticalAnswer 0.99 ''ja'', text_kanji_kana)]
        (snd (hybridLanguageDetect providersLoadFails initialState text_in)))) = 1
   \<and> identify_calls (snd (detectAll [(statisticalAnswer 0.99 ''en'', text_hello),
                                      (statisticalAnswer 0.99 ''ja'', text_kanji_kana)]
        (snd (hybridLanguageDetect providersLoadFails initialState text_in)))) = 0"
proof -
  note T = load_failure_is_permanent[OF in_not_blank load_fails_env]
  have p: "import_probe providersLoadFails = ImportModule" "\<not> model_load providersLoadFails"
    by (simp_all add: providersLoadFails_def)
  have b: "\<not> list_all is_space text_in" using in_not_blank by (simp add: list_all_iff)
  from T have first: "fastTextAvailable (snd (hybridLanguageDetect providersLoadFails initialState text_in)) = Some False"
    "load_attempts (snd (hybridLanguageDetect providersLoadFails initialState text_in)) = 1"
    using p by simp_all
  from T have "\<forall>calls.
          import_probes (snd (detectAll calls (snd (hybridLanguageDetect providersLoadFails initialState text_in)))) = 1
          \<and> load_attempts (snd (detectAll calls (snd (hybridLanguageDetect providersLoadFails initialState text_in)))) = 1
          \<and> identify_calls (snd (detectAll calls (snd (hybridLanguageDetect providersLoadFails initialState text_in)))) = 0"
    using p by simp
  from this[THEN spec, of "[(statisticalAnswer 0.99 ''en'', text_hello),
                            (statisticalAnswer 0.99 ''ja'', text_kanji_kana)]"] first p b
  show ?thesis by blast
qed

text \<open>
  Claim C7. \<^verbatim>\<open>detectWithFastText\<close> never rejects, and it returns a result other than
  \<^verbatim>\<open>null\<close> exactly when all of this holds: the package is available (the flag
  \<^verbatim>\<open>fastTextAvailable\<close> is \<^verbatim>\<open>true\<close>, or it is not yet set and the dynamic import
  delivers the module); a model instance is obtained (it is cached, or a pending load settles
  to one, or the load started by this call succeeds); the model reports a score above 0.85
  and a tag whose lower-case form is an own key of \<^verbatim>\<open>LANGUAGE_CODE_MAP\<close> with a value
  among the six supported codes. The result then carries that code and that score. In every
  other case it returns \<^verbatim>\<open>null\<close>: in particular with the flag set to \<^verbatim>\<open>false\<close>, with
  an import that fails in this call, with a load that fails in this call, and with a model
  that throws.
\<close>

theorem fasttext_confidence_floor:
  "(\<exists>res. fst (detectWithFastText env s t) = Inr res)
   \<and> (\<forall>r. fst (detectWithFastText env s t) = Inr (Some r) \<longleftrightarrow>
        ((fastTextAvailable s = Some True
            \<or> (fastTextAvailable s = None \<and> import_probe env = ImportModule))
         \<and> (fastTextModel s \<or> (fastTextLoading s \<and> fastTextLoadPromise s = Some True)
            \<or> ((\<not> fastTextLoading s \<or> fastTextLoadPromise s = None) \<and> model_load env))
         \<and> (\<exists>x tag. identify env = Identified (Some x) (TagString tag) \<and> 0.85 < x
               \<and> LANGUAGE_CODE_MAP (toLowerCase tag) = StringValue (language r)
               \<and> language r \<in> set SUPPORTED_LANGUAGES
               \<and> confidence r = x \<and> detection_method r = FastText)))
   \<and> (fastTextAvailable s = Some False \<longrightarrow> fst (detectWithFastText env s t) = Inr None)
   \<and> (fastTextAvailable s = None \<and> import_probe env \<noteq> ImportModule \<longrightarrow>
        fst (detectWithFastText env s t) = Inr None)
   \<and> (\<not> fastTextModel s \<and> \<not> fastTextLoading s \<and> \<not> model_load env \<longrightarrow>
        fst (detectWithFastText env s t) = Inr None)
   \<and> (identify env = IdentifyThrows \<longrightarrow> fst (detectWithFastText env s t) = Inr None)"
proof -
  have never: "\<exists>res. fst (detectWithFastText env s t) = Inr res"
    using fasttext_result[of env s t] by blast
  have exact: "fst (detectWithFastText env s t) = Inr (Some r) \<longleftrightarrow>
        ((fastTextAvailable s = Some True
            \<or> (fastTextAvailable s = None \<and> import_probe env = ImportModule))
         \<and> (fastTextModel s \<or> (fastTextLoading s \<and> fastTextLoadPromise s = Some True)
            \<or> ((\<not> fastTextLoading s \<or> fastTextLoadPromise s = None) \<and> model_load env))
         \<and> (\<exists>x tag. identify env = Identified (Some x) (TagString tag) \<and> 0.85 < x
               \<and> LANGUAGE_CODE_MAP (toLowerCase tag) = StringValue (language r)
               \<and> language r \<in> set SUPPORTED_LANGUAGES
               \<and> confidence r = x \<and> detection_method r = FastText))" (is "?L \<longleftrightarrow> ?A \<and> ?M \<and> ?I") for r
  proof
    assume L: ?L
    have A: ?A by (rule fasttext_needs_import[OF L])
    have M: ?M
    proof (rule ccontr)
      assume "\<not> ?M"
      from fasttext_no_model[OF this, of t] L show False by simp
    qed
    have I: ?I using fasttext_result[of env s t] L by auto
    from A M I show "?A \<and> ?M \<and> ?I" by blast
  next
    assume R: "?A \<and> ?M \<and> ?I"
    from conjunct2[OF conjunct2[OF R]] obtain x tag where i: "identify env = Identified (Some x) (TagString tag)" "0.85 < x"
        "LANGUAGE_CODE_MAP (toLowerCase tag) = StringValue (language r)"
        "language r \<in> set SUPPORTED_LANGUAGES" "confidence r = x" "detection_method r = FastText"
      by blast
    have A: ?A by (rule conjunct1[OF R])
    have M: ?M by (rule conjunct1[OF conjunct2[OF R]])
    have "fst (detectWithFastText env s t) =
           Inr (Some \<lparr> language = language r, confidence = x, detection_method = FastText \<rparr>)"
      by (rule fasttext_answers[OF A M i(1) i(2) i(3) i(4)])
    moreover have "\<lparr> language = language r, confidence = x, detection_method = FastText \<rparr> = r"
      using i(5) i(6) by simp
    ultimately show ?L by simp
  qed
  have flagged: "fastTextAvailable s = Some False \<longrightarrow> fst (detectWithFastText env s t) = Inr None"
    by (simp add: fasttext_unavailable)
  have noimport: "fastTextAvailable s = None \<and> import_probe env \<noteq> ImportModule \<longrightarrow>
        fst (detectWithFastText env s t) = Inr None"
    using fasttext_no_import[of s env t] by blast
  have noload: "\<not> fastTextModel s \<and> \<not> fastTextLoading s \<and> \<not> model_load env \<longrightarrow>
        fst (detectWithFastText env s t) = Inr None"
    using fasttext_no_model[of s env t] by blast
  have throws: "identify env = IdentifyThrows \<longrightarrow> fst (detectWithFastText env s t) = Inr None"
    using fasttext_identify_throws[of env s t] by blast
  from never exact flagged noimport noload throws show ?thesis by blast
qed

theorem fasttext_confidence_floor_witness:
  "fastTextAvailable initialState = None
   \<and> import_probe (statisticalAnswer 0.9 ''ZH-TW'') = ImportModule
   \<and> \<not> fastTextLoading initialState
   \<and> model_load (statisticalAnswer 0.9 ''ZH-TW'')
   \<and> identify (statisticalAnswer 0.9 ''ZH-TW'') = Identified (Some 0.9) (TagString ''ZH-TW'')
   \<and> (0.85::real) < 0.9
   \<and> LANGUAGE_CODE_MAP (toLowerCase ''ZH-TW'') = StringValue ''zh''
   \<and> ''zh'' \<in> set SUPPORTED_LANGUAGES
   \<and> fst (detectWithFastText (statisticalAnswer 0.9 ''ZH-TW'') initialState text_hello) =
       Inr (Some \<lparr> language = ''zh'', confidence = 0.9, detection_method = FastText \<rparr>)
   \<and> fst (detectWithFastText (statisticalAnswer 0.8 ''zh'') initialState text_hello) = Inr None
   \<and> fst (detectWithFastText (statisticalAnswer 0.9 ''ko'') initialState text_hello) = Inr None
   \<and> fst (detectWithFastText (statisticalAnswer 0.9 ''constructor'') initialState text_hello) = Inr None
   \<and> fastTextAvailable (initialState\<lparr> fastTextAvailable := Some False \<rparr>) = Some False
   \<and> fst (detectWithFastText (statisticalAnswer 0.9 ''zh'')
              (initialState\<lparr> fastTextAvailable := Some False \<rparr>) text_hello) = Inr None
   \<and> import_probe providersUnavailable \<noteq> ImportModule
   \<and> fst (detectWithFastText providersUnavailable initialState text_hello) = Inr None
   \<and> \<not> fastTextModel initialState
   \<and> \<not> model_load providersLoadFails
   \<and> fst (detectWithFastText providersLoadFails initialState text_hello) = Inr None
   \<and> identify providersIdentifyThrows = IdentifyThrows
   \<and> fst (detectWithFastText providersIdentifyThrows initialState text_hello) = Inr None"
proof -
  let ?r = "\<lparr> language = ''zh'', confidence = 0.9, detection_method = FastText \<rparr>"
  have s0: "fastTextAvailable initialState = None" "\<not> fastTextLoading initialState"
    "\<not> fastTextModel initialState"
    by (simp_all add: initialState_def)
  have e: "import_probe (statisticalAnswer 0.9 ''ZH-TW'') = ImportModule"
    "model_load (statisticalAnswer 0.9 ''ZH-TW'')"
    "identify (statisticalAnswer 0.9 ''ZH-TW'') = Identified (Some 0.9) (TagString ''ZH-TW'')"
    by (simp_all add: statisticalAnswer_def)
  have A: "fastTextAvailable initialState = Some True
            \<or> (fastTextAvailable initialState = None
                \<and> import_probe (statisticalAnswer 0.9 ''ZH-TW'') = ImportModule)"
    using s0 e by simp
  have M: "fastTextModel initialState
            \<or> (fastTextLoading initialState \<and> fastTextLoadPromise initialState = Some True)
            \<or> ((\<not> fastTextLoading initialState \<or> fastTextLoadPromise initialState = None)
                \<and> model_load (statisticalAnswer 0.9 ''ZH-TW''))"
    using s0 e by simp
  have I: "\<exists>x tag. identify (statisticalAnswer 0.9 ''ZH-TW'') = Identified (Some x) (TagString tag)
               \<and> 0.85 < x
               \<and> LANGUAGE_CODE_MAP (toLowerCase tag) = StringValue (language ?r)
               \<and> language ?r \<in> set SUPPORTED_LANGUAGES
               \<and> confidence ?r = x \<and> detection_method ?r = FastText"
    by (rule exI[of _ "0.9"], rule exI[of _ "''ZH-TW''"])
       (simp add: e code_map_ZH_TW supported_members)
  have a: "fst (detectWithFastText (statisticalAnswer 0.9 ''ZH-TW'') initialState text_hello) = Inr (Some ?r)"
    using fasttext_confidence_floor[of "statisticalAnswer 0.9 ''ZH-TW''" initialState text_hello,
            THEN conjunct2, THEN conjunct1, THEN spec, of ?r, THEN iffD2]
          A M I
    by blast
  have b: "fst (detectWithFastText (statisticalAnswer 0.8 ''zh'') initialState text_hello) = Inr None"
    by (simp add: detectWithFastText_def initFastText_def checkFastTextAvailability_def
                statisticalAnswer_def initialState_def tagKey_def Let_def)
  have c: "fst (detectWithFastText (statisticalAnswer 0.9 ''ko'') initialState text_hello) = Inr None"
    by (simp add: detectWithFastText_def initFastText_def checkFastTextAvailability_def
                statisticalAnswer_def initialState_def tagKey_def Let_def
                LANGUAGE_CODE_MAP_def toLowerCase_def lowerChar_def)
  have d: "fst (detectWithFastText (statisticalAnswer 0.9 ''constructor'') initialState text_hello) = Inr None"
    by (simp add: detectWithFastText_def initFastText_def checkFastTextAvailability_def
                statisticalAnswer_def initialState_def tagKey_def Let_def
                LANGUAGE_CODE_MAP_def toLowerCase_def lowerChar_def)
  have f: "fastTextAvailable (initialState\<lparr> fastTextAvailable := Some False \<rparr>) = Some False"
    by simp
  have f': "fst (detectWithFastText (statisticalAnswer 0.9 ''zh'')
              (initialState\<lparr> fastTextAvailable := Some False \<rparr>) text_hello) = Inr None"
    using fasttext_confidence_floor[of "statisticalAnswer 0.9 ''zh''"
            "initialState\<lparr> fastTextAvailable := Some False \<rparr>" text_hello] f
    by blast
  have g: "import_probe providersUnavailable \<noteq> ImportModule"
    by (simp add: providersUnavailable_def)
  have g': "fst (detectWithFastText providersUnavailable initialState text_hello) = Inr None"
    using fasttext_confidence_floor[of providersUnavailable initialState text_hello] s0 g
    by blast
  have h: "\<not> model_load providersLoadFails" by (simp add: providersLoadFails_def)
  have h': "fst (detectWithFastText providersLoadFails initialState text_hello) = Inr None"
    using fasttext_confidence_floor[of providersLoadFails initialState text_hello] s0 h
    by blast
  have i: "identify providersIdentifyThrows = IdentifyThrows"
    by (simp add: providersIdentifyThrows_def)
  have i': "fst (detectWithFastText providersIdentifyThrows initialState text_hello) = Inr None"
    using fasttext_confidence_floor[of providersIdentifyThrows initialState text_hello] i
    by blast
  have n: "(0.85::real) < 0.9" by simp
  from s0 e n code_map_ZH_TW supported_members(2) a b c d f f' g g' h h' i i'
  show ?thesis by blast
qed

text \<open>
  Claim C8. For every input string that is empty or consists only of white space,
  \<^verbatim>\<open>hybridLanguageDetect\<close> resolves at once to the default result: English, confidence
  0.5, method fallback. No stage is called: the module state, with its call counters, is
  returned as it was, whatever the providers would have done.
\<close>

theorem blank_input_default:
  assumes "\<forall>c\<in>set t. is_space c"
  shows "hybridLanguageDetect env s t =
           (Inr \<lparr> language = ''en'', confidence = 0.5, detection_method = Fallback \<rparr>, s)"
  using hybrid_blank[OF assms, of env s] by (simp add: defaultResult_def)

theorem blank_input_default_witness:
  "list_all is_space text_blank \<and>
   hybridLanguageDetect (statisticalAnswer 0.99 ''de'') initialState text_blank =
     (Inr \<lparr> language = ''en'', confidence = 0.5, detection_method = Fallback \<rparr>, initialState)"
  using blank_input_default[OF blank_text_blank, of "statisticalAnswer 0.99 ''de''" initialState]
        blank_text_blank by (simp add: list_all_iff)




text \<open>
  Claim C10. Every result of \<^verbatim>\<open>detectWithCharScan\<close> other than \<^verbatim>\<open>null\<close> has a
  confidence above 0.75; the Kana rule and the ideograph rule give at least 0.8. So the guard
  of stage H, confidence above 0.75, never turns a result down, the branch after it sees a
  heuristic result only when that is \<^verbatim>\<open>null\<close>, and the synchronous variant returns
  every result of the scan.
\<close>

theorem charscan_above_threshold:
  "(\<forall>r. detectWithCharScan t = Some r \<longrightarrow> 0.75 < confidence r)
   \<and> ((\<exists>c\<in>set t. is_japanese c \<or> is_chinese c) \<longrightarrow>
        (\<exists>r. detectWithCharScan t = Some r \<and> 0.8 \<le> confidence r))
   \<and> returnedAbove 0.75 (detectWithCharScan t) = detectWithCharScan t
   \<and> (returnedAbove 0.75 (detectWithCharScan t) = None \<longrightarrow> detectWithCharScan t = None)
   \<and> (\<forall>r. detectWithCharScan t = Some r \<longrightarrow> hybridLanguageDetectSync t = r)"
proof -
  have a: "\<forall>r. detectWithCharScan t = Some r \<longrightarrow> 0.75 < confidence r"
    using charscan_cases[of t] by blast
  have b: "(\<exists>c\<in>set t. is_japanese c \<or> is_chinese c) \<longrightarrow>
        (\<exists>r. detectWithCharScan t = Some r \<and> 0.8 \<le> confidence r)"
  proof
    assume h: "\<exists>c\<in>set t. is_japanese c \<or> is_chinese c"
    show "\<exists>r. detectWithCharScan t = Some r \<and> 0.8 \<le> confidence r"
    proof (cases "\<exists>c\<in>set t. is_japanese c")
      case True
      define r where "r = \<lparr> language = ''ja'',
          confidence = min 0.98 (0.8 + (real (count_matches is_japanese t) / real (length t)) * 0.18),
          detection_method = CharScan \<rparr>"
      have "detectWithCharScan t = Some r" unfolding r_def by (rule charscan_japanese[OF True])
      moreover have "0.8 \<le> confidence r"
        using script_result[OF r_def] by (simp add: SUPPORTED_LANGUAGES_def)
      ultimately show ?thesis by blast
    next
      case False
      with h have c: "\<exists>c\<in>set t. is_chinese c" by blast
      define r where "r = \<lparr> language = ''zh'',
          confidence = min 0.98 (0.8 + (real (count_matches is_chinese t) / real (length t)) * 0.18),
          detection_method = CharScan \<rparr>"
      have "detectWithCharScan t = Some r" unfolding r_def by (rule charscan_chinese[OF c False])
      moreover have "0.8 \<le> confidence r"
        using script_result[OF r_def] by (simp add: SUPPORTED_LANGUAGES_def)
      ultimately show ?thesis by blast
    qed
  qed
  have c: "returnedAbove 0.75 (detectWithCharScan t) = detectWithCharScan t"
    by (rule returnedAbove_charscan)
  have d: "\<forall>r. detectWithCharScan t = Some r \<longrightarrow> hybridLanguageDetectSync t = r"
    by (simp add: hybridLanguageDetectSync_def)
  from a b c d show ?thesis by simp
qed

theorem charscan_above_threshold_witness:
  "detectWithCharScan text_kanji_kana =
     Some \<lparr> language = ''ja'', confidence = 0.86, detection_method = CharScan \<rparr>
   \<and> (0.75::real) < 0.86 \<and> (0.8::real) \<le> 0.86
   \<and> (\<exists>c\<in>set text_kanji_kana. is_japanese c \<or> is_chinese c)
   \<and> returnedAbove 0.75 (detectWithCharScan text_in_hash) = None
   \<and> detectWithCharScan text_in_hash = None
   \<and> hybridLanguageDetectSync text_kanji_kana =
       \<lparr> language = ''ja'', confidence = 0.86, detection_method = CharScan \<rparr>"
proof -
  have k: "\<exists>c\<in>set text_kanji_kana. is_japanese c \<or> is_chinese c"
    by (simp add: text_kanji_kana_def is_japanese_def is_chinese_def)
  have n: "returnedAbove 0.75 (detectWithCharScan text_in_hash) = None"
    by (simp add: charscan_in_hash returnedAbove_def)
  from charscan_above_threshold[of text_kanji_kana] charscan_above_threshold[of text_in_hash]
       charscan_kanji_kana k n
  show ?thesis by simp
qed

end
